theory Spec2Isabelle
  imports Complex_Main "HOL-Library.Word" "HOL-Library.Sublist"
begin

section \<open>JavaScript strings and numbers\<close>

text \<open>
  A JavaScript string is a sequence of 16-bit code units; \<^verbatim>\<open>length\<close> and
  \<^verbatim>\<open>substring\<close> count code units. String literals of the source are written
  \<open>lit ''...''\<close>. The language bounds the length of a string by \<open>2^53 - 1\<close>;
  lists have no such bound, so a theorem that needs it says so.
\<close>

type_synonym code_unit = "16 word"

type_synonym jsstring = "code_unit list"

definition lit :: "string \<Rightarrow> jsstring" where
  "lit s = map of_char s"

text \<open>
  \<^verbatim>\<open>String(n)\<close> and \<^verbatim>\<open>`${n}`\<close> for a number \<open>n\<close>. Numbers are modelled by
  \<open>int\<close>: the integer-valued numbers whose conversion is plain decimal notation
  (magnitude below \<open>10^21\<close>); \<open>digits\<close> writes a natural number in decimal, most
  significant digit first.
\<close>

fun digits :: "nat \<Rightarrow> jsstring" where
  "digits n =
     (if n < 10 then [of_nat (48 + n)]
      else digits (n div 10) @ [of_nat (48 + n mod 10)])"

declare digits.simps [simp del]

definition String_int :: "int \<Rightarrow> jsstring" where
  "String_int i = (if i < 0 then lit ''-'' @ digits (nat (- i)) else digits (nat i))"

text \<open>Reading a decimal numeral back, to state that \<open>digits\<close> is decimal notation.\<close>

definition decimal_value :: "jsstring \<Rightarrow> nat" where
  "decimal_value s = foldl (\<lambda>acc c. 10 * acc + (unat c - 48)) 0 s"

text \<open>
  \<^verbatim>\<open>s.substring(indexStart, indexEnd)\<close>: both indices are clamped to
  \<open>[0, length]\<close> and swapped when the first is the larger.
\<close>

definition substring :: "jsstring \<Rightarrow> int \<Rightarrow> int \<Rightarrow> jsstring" where
  "substring s indexStart indexEnd =
     (let len = int (length s);
          a = min (max indexStart 0) len;
          b = min (max indexEnd 0) len
      in take (nat (max a b - min a b)) (drop (nat (min a b)) s))"

text \<open>\<^verbatim>\<open>parts.join(sep)\<close>.\<close>

fun join :: "jsstring \<Rightarrow> jsstring list \<Rightarrow> jsstring" where
  "join sep [] = []"
| "join sep [x] = x"
| "join sep (x # y # ys) = x @ sep @ join sep (y # ys)"

section \<open>The length guard (formatters.ts)\<close>

definition CHARACTER_LIMIT :: int where
  "CHARACTER_LIMIT = 15000"

text \<open>
  \<^verbatim>\<open>truncateIfNeeded(content, limit = CHARACTER_LIMIT)\<close>; a caller that leaves the
  limit out calls \<open>truncateIfNeeded content CHARACTER_LIMIT\<close>. The limit is an
  integer-valued number.
\<close>

definition truncateIfNeeded :: "jsstring \<Rightarrow> int \<Rightarrow> jsstring" where
  "truncateIfNeeded content limit =
     (if int (length content) \<le> limit then content
      else
        let truncated = substring content 0 (limit - 100)
        in truncated
             @ lit ''\<newline>\<newline>...[Content truncated due to length. Total: ''
             @ String_int (int (length content))
             @ lit '' characters]'')"

section \<open>Records of the remote service (types.ts)\<close>

text \<open>
  The records carry the fields the formatters read; a field is named by its record and
  its path (\<open>photo.links.html\<close> is \<open>photo_links_html\<close>). An optional field
  (\<^verbatim>\<open>bio?: string\<close>) is an \<open>option\<close>, \<open>None\<close> when the field is absent.
\<close>

record UnsplashUser =
  user_id :: jsstring
  user_username :: jsstring
  user_name :: jsstring
  user_bio :: "jsstring option"
  user_location :: "jsstring option"
  user_total_likes :: int
  user_total_photos :: int
  user_total_collections :: int
  user_instagram_username :: "jsstring option"
  user_portfolio_url :: "jsstring option"
  user_links_html :: jsstring

record PhotoLocation =
  location_name :: "jsstring option"

record PhotoTag =
  tag_title :: jsstring

record UnsplashPhoto =
  photo_id :: jsstring
  photo_created_at :: jsstring
  photo_width :: int
  photo_height :: int
  photo_color :: jsstring
  photo_description :: "jsstring option"
  photo_alt_description :: "jsstring option"
  photo_likes :: int
  photo_urls_regular :: jsstring
  photo_links_html :: jsstring
  photo_user :: UnsplashUser
  photo_location :: "PhotoLocation option"
  photo_tags :: "PhotoTag list option"

record UnsplashCollection =
  collection_id :: jsstring
  collection_title :: jsstring
  collection_description :: "jsstring option"
  collection_published_at :: jsstring
  collection_total_photos :: int
  collection_user :: UnsplashUser
  collection_links_html :: jsstring

record Historical =
  historical_change :: int

record Metric =
  metric_total :: int
  metric_historical :: Historical

record PhotoStatistics =
  stats_id :: jsstring
  stats_downloads :: Metric
  stats_views :: Metric
  stats_likes :: Metric

section \<open>The formatters (formatters.ts)\<close>

text \<open>
  An optional string in a condition (\<^verbatim>\<open>if (photo.description)\<close>) counts as true
  when it is present and not empty; \<^verbatim>\<open>v || d\<close> is \<open>v\<close> then, and \<open>d\<close> otherwise.
\<close>

definition truthy :: "jsstring option \<Rightarrow> bool" where
  "truthy v = (case v of None \<Rightarrow> False | Some s \<Rightarrow> s \<noteq> [])"

definition orElse :: "jsstring option \<Rightarrow> jsstring \<Rightarrow> jsstring" where
  "orElse v d = (case v of None \<Rightarrow> d | Some s \<Rightarrow> if s \<noteq> [] then s else d)"

text \<open>\<^verbatim>\<open>if (v) { parts.push(`${label}${v}`); }\<close>: the lines this statement adds.\<close>

definition pushIf :: "jsstring option \<Rightarrow> jsstring \<Rightarrow> jsstring list" where
  "pushIf v label = (case v of None \<Rightarrow> [] | Some s \<Rightarrow> if s \<noteq> [] then [label @ s] else [])"

text \<open>
  \<open>photoParts\<close> is the array \<^verbatim>\<open>parts\<close> of \<^verbatim>\<open>formatPhotoMarkdown\<close> when it is
  joined. \<^verbatim>\<open>new Date(s).toLocaleDateString()\<close> depends on the locale of the process
  and is the parameter \<open>localeDate\<close>; it returns a string for every argument. The
  multiplication sign of the dimensions line is the code unit \<open>0xD7\<close>.
\<close>

definition photoParts :: "(jsstring \<Rightarrow> jsstring) \<Rightarrow> UnsplashPhoto \<Rightarrow> jsstring list" where
  "photoParts localeDate photo =
     [lit ''### ''
        @ orElse (photo_alt_description photo) (orElse (photo_description photo) (lit ''Photo'')),
      lit ''**ID**: '' @ photo_id photo,
      lit ''**Photographer**: '' @ user_name (photo_user photo)
        @ lit '' (@'' @ user_username (photo_user photo) @ lit '')'',
      lit ''**Dimensions**: '' @ String_int (photo_width photo) @ lit '' '' @ [0xD7] @ lit '' ''
        @ String_int (photo_height photo) @ lit ''px'',
      lit ''**Color**: '' @ photo_color photo,
      lit ''**Likes**: '' @ String_int (photo_likes photo)]
     @ pushIf (photo_description photo) (lit ''**Description**: '')
     @ pushIf (Option.bind (photo_location photo) location_name) (lit ''**Location**: '')
     @ [lit ''**Created**: '' @ localeDate (photo_created_at photo),
        lit ''**Unsplash URL**: '' @ photo_links_html photo,
        lit ''**Download URL**: '' @ photo_urls_regular photo]
     @ (case photo_tags photo of
          None \<Rightarrow> []
        | Some tags \<Rightarrow>
            if length tags > 0
            then [lit ''**Tags**: '' @ join (lit '', '') (map tag_title tags)]
            else [])"

definition formatPhotoMarkdown :: "(jsstring \<Rightarrow> jsstring) \<Rightarrow> UnsplashPhoto \<Rightarrow> jsstring" where
  "formatPhotoMarkdown localeDate photo = join (lit ''\<newline>'') (photoParts localeDate photo)"

definition collectionParts ::
  "(jsstring \<Rightarrow> jsstring) \<Rightarrow> UnsplashCollection \<Rightarrow> jsstring list" where
  "collectionParts localeDate collection =
     [lit ''### '' @ collection_title collection,
      lit ''**ID**: '' @ collection_id collection,
      lit ''**Curator**: '' @ user_name (collection_user collection)
        @ lit '' (@'' @ user_username (collection_user collection) @ lit '')'',
      lit ''**Total Photos**: '' @ String_int (collection_total_photos collection)]
     @ pushIf (collection_description collection) (lit ''**Description**: '')
     @ [lit ''**Published**: '' @ localeDate (collection_published_at collection),
        lit ''**Unsplash URL**: '' @ collection_links_html collection]"

definition formatCollectionMarkdown ::
  "(jsstring \<Rightarrow> jsstring) \<Rightarrow> UnsplashCollection \<Rightarrow> jsstring" where
  "formatCollectionMarkdown localeDate collection =
     join (lit ''\<newline>'') (collectionParts localeDate collection)"

definition userParts :: "UnsplashUser \<Rightarrow> jsstring list" where
  "userParts user =
     [lit ''### '' @ user_name user @ lit '' (@'' @ user_username user @ lit '')'',
      lit ''**ID**: '' @ user_id user,
      lit ''**Total Photos**: '' @ String_int (user_total_photos user),
      lit ''**Total Likes**: '' @ String_int (user_total_likes user),
      lit ''**Total Collections**: '' @ String_int (user_total_collections user)]
     @ pushIf (user_bio user) (lit ''**Bio**: '')
     @ pushIf (user_location user) (lit ''**Location**: '')
     @ pushIf (user_instagram_username user) (lit ''**Instagram**: @'')
     @ pushIf (user_portfolio_url user) (lit ''**Portfolio**: '')
     @ [lit ''**Unsplash Profile**: '' @ user_links_html user]"

definition formatUserMarkdown :: "UnsplashUser \<Rightarrow> jsstring" where
  "formatUserMarkdown user = join (lit ''\<newline>'') (userParts user)"

text \<open>
  \<^verbatim>\<open>`${change > 0 ? "+" : ""}${change}`\<close>, the rendering of a historical change.
\<close>

definition signedChange :: "int \<Rightarrow> jsstring" where
  "signedChange change = (if change > 0 then lit ''+'' else []) @ String_int change"

text \<open>
  \<open>statisticsParts\<close> is the array \<^verbatim>\<open>parts\<close> of \<^verbatim>\<open>formatStatisticsMarkdown\<close>.
  \<^verbatim>\<open>total.toLocaleString()\<close> depends on the locale and is the parameter
  \<open>toLocaleString\<close>.
\<close>

definition statisticsParts :: "(int \<Rightarrow> jsstring) \<Rightarrow> PhotoStatistics \<Rightarrow> jsstring list" where
  "statisticsParts toLocaleString stats =
     [lit ''### Photo Statistics (ID: '' @ stats_id stats @ lit '')'',
      lit ''**Total Downloads**: '' @ toLocaleString (metric_total (stats_downloads stats)),
      lit ''**Total Views**: '' @ toLocaleString (metric_total (stats_views stats)),
      lit ''**Total Likes**: '' @ toLocaleString (metric_total (stats_likes stats)),
      lit ''\<newline>**Recent Trends**:'',
      lit ''- Downloads change: ''
        @ signedChange (historical_change (metric_historical (stats_downloads stats))),
      lit ''- Views change: ''
        @ signedChange (historical_change (metric_historical (stats_views stats))),
      lit ''- Likes change: ''
        @ signedChange (historical_change (metric_historical (stats_likes stats)))]"

definition formatStatisticsMarkdown :: "(int \<Rightarrow> jsstring) \<Rightarrow> PhotoStatistics \<Rightarrow> jsstring" where
  "formatStatisticsMarkdown toLocaleString stats =
     join (lit ''\<newline>'') (statisticsParts toLocaleString stats)"

text \<open>
  The list formatters: \<^verbatim>\<open>photos.map((photo, index) => ...)\<close> numbers the entries from
  1 and joins them with a blank line.
\<close>

definition formatPhotosListMarkdown :: "UnsplashPhoto list \<Rightarrow> jsstring" where
  "formatPhotosListMarkdown photos =
     join (lit ''\<newline>\<newline>'')
       (map (\<lambda>(index, photo).
          String_int (int index + 1) @ lit ''. **''
            @ orElse (photo_alt_description photo) (lit ''Photo'')
            @ lit ''** (ID: '' @ photo_id photo @ lit '')\<newline>   - By ''
            @ user_name (photo_user photo) @ lit '' (@'' @ user_username (photo_user photo)
            @ lit '')\<newline>   - '' @ String_int (photo_width photo) @ lit '' '' @ [0xD7]
            @ lit '' '' @ String_int (photo_height photo) @ lit ''px | ''
            @ String_int (photo_likes photo) @ lit '' likes\<newline>   - ''
            @ photo_links_html photo)
        (enumerate 0 photos))"

definition formatCollectionsListMarkdown :: "UnsplashCollection list \<Rightarrow> jsstring" where
  "formatCollectionsListMarkdown collections =
     join (lit ''\<newline>\<newline>'')
       (map (\<lambda>(index, collection).
          String_int (int index + 1) @ lit ''. **'' @ collection_title collection
            @ lit ''** (ID: '' @ collection_id collection @ lit '')\<newline>   - By ''
            @ user_name (collection_user collection) @ lit '' (@''
            @ user_username (collection_user collection) @ lit '')\<newline>   - ''
            @ String_int (collection_total_photos collection) @ lit '' photos\<newline>   - ''
            @ collection_links_html collection)
        (enumerate 0 collections))"

definition formatUsersListMarkdown :: "UnsplashUser list \<Rightarrow> jsstring" where
  "formatUsersListMarkdown users =
     join (lit ''\<newline>\<newline>'')
       (map (\<lambda>(index, user).
          String_int (int index + 1) @ lit ''. **'' @ user_name user @ lit ''** (@''
            @ user_username user @ lit '')\<newline>   - ''
            @ String_int (user_total_photos user) @ lit '' photos | ''
            @ String_int (user_total_likes user) @ lit '' likes\<newline>   - ''
            @ user_links_html user)
        (enumerate 0 users))"

section \<open>The API client (unsplash-client.ts)\<close>

definition UNSPLASH_API_URL :: jsstring where
  "UNSPLASH_API_URL = lit ''https://api.unsplash.com''"

subsection \<open>Request parameters\<close>

text \<open>
  A parameter value has the type \<^verbatim>\<open>string | number | boolean | undefined\<close>;
  \<open>String_param\<close> is \<^verbatim>\<open>String(value)\<close>.
\<close>

datatype param = PString jsstring | PNumber int | PBoolean bool | PUndefined

fun String_param :: "param \<Rightarrow> jsstring" where
  "String_param (PString s) = s"
| "String_param (PNumber n) = String_int n"
| "String_param (PBoolean b) = (if b then lit ''true'' else lit ''false'')"
| "String_param PUndefined = lit ''undefined''"

text \<open>
  An object is the list of its own properties in the order of their creation, with
  distinct keys. \<^verbatim>\<open>Object.entries\<close> lists the properties whose key is an array index
  first, by ascending index, and the other properties after them in creation order.
  A key is an array index when it is the decimal notation of a number below
  \<open>2^32 - 1\<close>.
\<close>

definition array_index :: "jsstring \<Rightarrow> nat option" where
  "array_index key =
     (if digits (decimal_value key) = key \<and> decimal_value key < 2 ^ 32 - 1
      then Some (decimal_value key)
      else None)"

definition Object_entries :: "(jsstring \<times> 'v) list \<Rightarrow> (jsstring \<times> 'v) list" where
  "Object_entries obj =
     sort_key (\<lambda>(key, value). case array_index key of Some n \<Rightarrow> n | None \<Rightarrow> 0)
       (filter (\<lambda>(key, value). array_index key \<noteq> None) obj)
     @ filter (\<lambda>(key, value). array_index key = None) obj"

subsection \<open>URLSearchParams\<close>

text \<open>
  \<^verbatim>\<open>queryParams.toString()\<close> is the \<^verbatim>\<open>application/x-www-form-urlencoded\<close>
  serialisation of the appended pairs: each name and value is converted to scalar
  values (a surrogate without its partner becomes \<open>U+FFFD\<close>), encoded in UTF-8 and
  written byte by byte. The bytes of ASCII letters and digits and of \<open>* - . _\<close> stand
  for themselves, the space becomes \<open>+\<close>, every other byte becomes \<open>%\<close> and two
  upper-case hexadecimal digits. The pairs are written \<open>name=value\<close> and joined by
  \<open>&\<close>.
\<close>

definition high_surrogate :: "code_unit \<Rightarrow> bool" where
  "high_surrogate u = (0xD800 \<le> u \<and> u \<le> 0xDBFF)"

definition low_surrogate :: "code_unit \<Rightarrow> bool" where
  "low_surrogate u = (0xDC00 \<le> u \<and> u \<le> 0xDFFF)"

definition scalar_value :: "code_unit \<Rightarrow> nat" where
  "scalar_value u = (if high_surrogate u \<or> low_surrogate u then 0xFFFD else unat u)"

fun code_points :: "jsstring \<Rightarrow> nat list" where
  "code_points [] = []"
| "code_points [u] = [scalar_value u]"
| "code_points (u # v # rest) =
     (if high_surrogate u \<and> low_surrogate v
      then (0x10000 + (unat u - 0xD800) * 0x400 + (unat v - 0xDC00)) # code_points rest
      else scalar_value u # code_points (v # rest))"

definition utf8 :: "nat \<Rightarrow> nat list" where
  "utf8 cp =
     (if cp < 0x80 then [cp]
      else if cp < 0x800 then [0xC0 + cp div 0x40, 0x80 + cp mod 0x40]
      else if cp < 0x10000
        then [0xE0 + cp div 0x1000, 0x80 + cp div 0x40 mod 0x40, 0x80 + cp mod 0x40]
      else [0xF0 + cp div 0x40000, 0x80 + cp div 0x1000 mod 0x40,
            0x80 + cp div 0x40 mod 0x40, 0x80 + cp mod 0x40])"

definition unreserved :: "nat \<Rightarrow> bool" where
  "unreserved b =
     ((48 \<le> b \<and> b \<le> 57) \<or> (65 \<le> b \<and> b \<le> 90) \<or> (97 \<le> b \<and> b \<le> 122)
      \<or> b = 42 \<or> b = 45 \<or> b = 46 \<or> b = 95)"

definition hex_digit :: "nat \<Rightarrow> code_unit" where
  "hex_digit d = of_nat (if d < 10 then 48 + d else 55 + d)"

definition urlencode_byte :: "nat \<Rightarrow> jsstring" where
  "urlencode_byte b =
     (if b = 32 then lit ''+''
      else if unreserved b then [of_nat b]
      else lit ''%'' @ [hex_digit (b div 16), hex_digit (b mod 16)])"

definition urlencode :: "jsstring \<Rightarrow> jsstring" where
  "urlencode s = concat (map urlencode_byte (concat (map utf8 (code_points s))))"

definition URLSearchParams_toString :: "(jsstring \<times> jsstring) list \<Rightarrow> jsstring" where
  "URLSearchParams_toString pairs =
     join (lit ''&'') (map (\<lambda>(name, value). urlencode name @ lit ''='' @ urlencode value) pairs)"

subsection \<open>The request URL (lines 33 to 44 of makeRequest)\<close>

text \<open>
  \<open>queryParams\<close> is the list of pairs appended to the \<^verbatim>\<open>URLSearchParams\<close> object;
  \<open>requestUrl\<close> is the constant \<^verbatim>\<open>url\<close>. \<open>params\<close> is \<open>None\<close> when the caller
  leaves the argument out.
\<close>

definition queryParams :: "(jsstring \<times> param) list option \<Rightarrow> (jsstring \<times> jsstring) list" where
  "queryParams params =
     (case params of
        None \<Rightarrow> []
      | Some obj \<Rightarrow>
          map (\<lambda>(key, value). (key, String_param value))
            (filter (\<lambda>(key, value). value \<noteq> PUndefined) (Object_entries obj)))"

definition requestUrl :: "jsstring \<Rightarrow> (jsstring \<times> param) list option \<Rightarrow> jsstring" where
  "requestUrl endpoint params =
     UNSPLASH_API_URL @ endpoint
       @ (if URLSearchParams_toString (queryParams params) \<noteq> []
          then lit ''?'' @ URLSearchParams_toString (queryParams params)
          else [])"

subsection \<open>Values, responses and errors\<close>

text \<open>
  The values \<^verbatim>\<open>JSON.parse\<close> and \<^verbatim>\<open>response.json()\<close> return. A number is a finite
  number, by its value.
\<close>

datatype js =
    JUndefined
  | JNull
  | JBoolean bool
  | JNumber rat
  | JString jsstring
  | JArray "js list"
  | JObject "(jsstring \<times> js) list"

definition js_truthy :: "js \<Rightarrow> bool" where
  "js_truthy v =
     (case v of
        JUndefined \<Rightarrow> False
      | JNull \<Rightarrow> False
      | JBoolean b \<Rightarrow> b
      | JNumber n \<Rightarrow> n \<noteq> 0
      | JString s \<Rightarrow> s \<noteq> []
      | JArray xs \<Rightarrow> True
      | JObject ps \<Rightarrow> True)"

text \<open>\<^verbatim>\<open>a || b\<close>.\<close>

definition js_or :: "js \<Rightarrow> js \<Rightarrow> js" where
  "js_or a b = (if js_truthy a then a else b)"

definition nullish :: "js \<Rightarrow> bool" where
  "nullish v = (v = JUndefined \<or> v = JNull)"

text \<open>
  \<^verbatim>\<open>v[key]\<close> for a value that is neither \<^verbatim>\<open>undefined\<close> nor \<^verbatim>\<open>null\<close> (reading
  a property of those throws a \<^verbatim>\<open>TypeError\<close>), and for the keys the client reads:
  \<^verbatim>\<open>errors\<close>, \<^verbatim>\<open>error\<close> and \<^verbatim>\<open>0\<close>, which no prototype defines. An object has its
  own properties, an array its elements, a string its code units.
\<close>

fun js_get :: "js \<Rightarrow> jsstring \<Rightarrow> js" where
  "js_get (JObject ps) key = (case map_of ps key of Some v \<Rightarrow> v | None \<Rightarrow> JUndefined)"
| "js_get (JArray xs) key =
     (case array_index key of
        Some i \<Rightarrow> if i < length xs then xs ! i else JUndefined
      | None \<Rightarrow> JUndefined)"
| "js_get (JString s) key =
     (case array_index key of
        Some i \<Rightarrow> if i < length s then JString [s ! i] else JUndefined
      | None \<Rightarrow> JUndefined)"
| "js_get v key = JUndefined"

text \<open>
  \<^verbatim>\<open>class UnsplashAPIError extends Error\<close>. \<open>message\<close> is the string that
  \<^verbatim>\<open>super(message)\<close> stores. \<open>response\<close> holds what the client attaches: the text of
  the response body, or the error object it caught (an \<^verbatim>\<open>Error\<close>, with its message).
\<close>

datatype attached = BodyText jsstring | ErrorObject jsstring

record UnsplashAPIError =
  message :: jsstring
  statusCode :: "int option"
  response :: "attached option"

text \<open>
  What a call can throw: an \<^verbatim>\<open>UnsplashAPIError\<close>, another instance of \<^verbatim>\<open>Error\<close>
  (with its message), or a value that is no \<^verbatim>\<open>Error\<close> at all.
\<close>

datatype thrown = APIError UnsplashAPIError | PlainError jsstring | NonError js

text \<open>
  \<open>ToString\<close> is the conversion of a value to a string, which \<^verbatim>\<open>super(message)\<close>
  applies to its argument. The notation of a number is the parameter
  \<open>Number_toString\<close>. An object made by \<^verbatim>\<open>JSON.parse\<close> converts through its
  \<^verbatim>\<open>toString\<close>: without a property of that name it inherits the method of
  \<^verbatim>\<open>Object.prototype\<close> and converts to \<open>[object Object]\<close>; with one, which is never a
  function, nothing converts it (\<^verbatim>\<open>valueOf\<close> is not a function either, or returns the
  object itself) and the conversion throws a \<^verbatim>\<open>TypeError\<close>, here with the message
  of Node.js. An array converts to the conversions of its elements joined by commas,
  where \<^verbatim>\<open>undefined\<close> and \<^verbatim>\<open>null\<close> count as the empty string; the first element
  that throws ends the conversion.
\<close>

definition conversion_error :: thrown where
  "conversion_error = PlainError (lit ''Cannot convert object to primitive value'')"

fun all_results :: "(thrown + 'a) list \<Rightarrow> thrown + 'a list" where
  "all_results [] = Inr []"
| "all_results (r # rs) =
     (case r of
        Inl error \<Rightarrow> Inl error
      | Inr x \<Rightarrow> (case all_results rs of Inl error \<Rightarrow> Inl error | Inr xs \<Rightarrow> Inr (x # xs)))"

fun ToString :: "(rat \<Rightarrow> jsstring) \<Rightarrow> js \<Rightarrow> thrown + jsstring" where
  "ToString Number_toString JUndefined = Inr (lit ''undefined'')"
| "ToString Number_toString JNull = Inr (lit ''null'')"
| "ToString Number_toString (JBoolean b) = Inr (if b then lit ''true'' else lit ''false'')"
| "ToString Number_toString (JNumber n) = Inr (Number_toString n)"
| "ToString Number_toString (JString s) = Inr s"
| "ToString Number_toString (JArray xs) =
     (case all_results
             (map (\<lambda>x. if x = JUndefined \<or> x = JNull then Inr []
                        else ToString Number_toString x) xs) of
        Inl error \<Rightarrow> Inl error
      | Inr strings \<Rightarrow> Inr (join (lit '','') strings))"
| "ToString Number_toString (JObject ps) =
     (if map_of ps (lit ''toString'') = None then Inr (lit ''[object Object]'')
      else Inl conversion_error)"

text \<open>
  \<^verbatim>\<open>new UnsplashAPIError(message, statusCode, response)\<close>: the constructor of
  \<^verbatim>\<open>Error\<close> leaves the message empty when the argument is \<^verbatim>\<open>undefined\<close> and
  stores its conversion to a string otherwise; what the conversion throws, the
  constructor throws.
\<close>

definition new_UnsplashAPIError ::
  "(rat \<Rightarrow> jsstring) \<Rightarrow> js \<Rightarrow> int option \<Rightarrow> attached option \<Rightarrow> thrown + UnsplashAPIError" where
  "new_UnsplashAPIError Number_toString message_arg status_arg response_arg =
     (case (if message_arg = JUndefined then Inr [] else ToString Number_toString message_arg) of
        Inl error \<Rightarrow> Inl error
      | Inr string \<Rightarrow>
          Inr \<lparr>message = string, statusCode = status_arg, response = response_arg\<rparr>)"

text \<open>
  The notation of an integer-valued number of magnitude below \<open>10^21\<close>, for the
  examples: the values there hold no other number.
\<close>

definition integer_notation :: "rat \<Rightarrow> jsstring" where
  "integer_notation n = String_int \<lfloor>n\<rfloor>"

text \<open>
  The response \<^verbatim>\<open>fetch\<close> resolves with: the fields \<^verbatim>\<open>ok\<close> and \<^verbatim>\<open>status\<close>, and
  what awaiting \<^verbatim>\<open>response.text()\<close> and \<^verbatim>\<open>response.json()\<close> gives (a value, or
  something thrown).
\<close>

record Response =
  ok :: bool
  status :: int
  text_result :: "thrown + jsstring"
  json_result :: "thrown + js"

text \<open>
  The response of the repository's client test for error responses: not \<^verbatim>\<open>ok\<close>, with
  a status and a body text (the test's mock has no \<^verbatim>\<open>json\<close> method, and the client
  does not call it on such a response).
\<close>

definition error_response :: "int \<Rightarrow> jsstring \<Rightarrow> Response" where
  "error_response status_code body =
     \<lparr>ok = False, status = status_code, text_result = Inr body,
      json_result = Inl (NonError JUndefined)\<rparr>"

subsection \<open>makeRequest\<close>

text \<open>
  Lines 56 to 63: the message of the error for a response that is not \<^verbatim>\<open>ok\<close>.
  \<open>genericMessage\<close> is the initial value of \<^verbatim>\<open>errorMessage\<close> and \<open>errors_first\<close>
  is \<^verbatim>\<open>errorJson.errors?.[0]\<close> for an \<^verbatim>\<open>errorJson\<close> that is not \<^verbatim>\<open>null\<close>.
  \<^verbatim>\<open>JSON.parse\<close> is a parameter: it returns a value or throws. The inner
  \<^verbatim>\<open>catch\<close> takes both what \<^verbatim>\<open>JSON.parse\<close> throws and the \<^verbatim>\<open>TypeError\<close> of
  reading \<^verbatim>\<open>errors\<close> from \<^verbatim>\<open>null\<close>.
\<close>

definition genericMessage :: "int \<Rightarrow> js" where
  "genericMessage status_code =
     JString (lit ''Unsplash API error ('' @ String_int status_code @ lit '')'')"

definition errors_first :: "js \<Rightarrow> js" where
  "errors_first errorJson =
     (let errors = js_get errorJson (lit ''errors'')
      in if nullish errors then JUndefined else js_get errors (lit ''0''))"

definition errorMessage :: "(jsstring \<Rightarrow> thrown + js) \<Rightarrow> int \<Rightarrow> jsstring \<Rightarrow> js" where
  "errorMessage JSON_parse status_code errorText =
     (let errorMessage = genericMessage status_code
      in case JSON_parse errorText of
           Inl thrown_value \<Rightarrow> js_or (JString errorText) errorMessage
         | Inr errorJson \<Rightarrow>
             if nullish errorJson then js_or (JString errorText) errorMessage
             else js_or (errors_first errorJson)
                    (js_or (js_get errorJson (lit ''error'')) errorMessage))"

text \<open>The headers of the request: the credential and the version of the API.\<close>

definition requestHeaders :: "jsstring \<Rightarrow> (jsstring \<times> jsstring) list" where
  "requestHeaders accessKey =
     [(lit ''Authorization'', lit ''Client-ID '' @ accessKey),
      (lit ''Accept-Version'', lit ''v1'')]"

text \<open>
  \<open>attempt\<close> is the \<^verbatim>\<open>try\<close> block; the \<^verbatim>\<open>case\<close> after it is the \<^verbatim>\<open>catch\<close> block.
  \<^verbatim>\<open>fetch\<close>, called with the URL and the two headers, resolves with a response or
  rejects with what it throws. The error for a response that is not \<^verbatim>\<open>ok\<close> is
  constructed inside the \<^verbatim>\<open>try\<close> block, so what its constructor throws is caught
  like everything else. The two errors of the \<^verbatim>\<open>catch\<close> block have string messages,
  which their constructor keeps.
\<close>

definition makeRequest ::
  "(jsstring \<Rightarrow> (jsstring \<times> jsstring) list \<Rightarrow> thrown + Response) \<Rightarrow>
   (jsstring \<Rightarrow> thrown + js) \<Rightarrow> (rat \<Rightarrow> jsstring) \<Rightarrow> jsstring \<Rightarrow> jsstring \<Rightarrow>
   (jsstring \<times> param) list option \<Rightarrow> UnsplashAPIError + js" where
  "makeRequest fetch JSON_parse Number_toString accessKey endpoint params =
     (let url = requestUrl endpoint params;
          attempt =
            (case fetch url (requestHeaders accessKey) of
               Inl error \<Rightarrow> Inl error
             | Inr resp \<Rightarrow>
                 if \<not> ok resp then
                   (case text_result resp of
                      Inl error \<Rightarrow> Inl error
                    | Inr errorText \<Rightarrow>
                        (case new_UnsplashAPIError Number_toString
                                (errorMessage JSON_parse (status resp) errorText)
                                (Some (status resp)) (Some (BodyText errorText)) of
                           Inl error \<Rightarrow> Inl error
                         | Inr api_error \<Rightarrow> Inl (APIError api_error)))
                 else json_result resp)
      in case attempt of
           Inr data \<Rightarrow> Inr data
         | Inl (APIError error) \<Rightarrow> Inl error
         | Inl (PlainError error_message) \<Rightarrow>
             Inl \<lparr>message = lit ''Network error: '' @ error_message,
                  statusCode = None,
                  response = Some (ErrorObject error_message)\<rparr>
         | Inl (NonError v) \<Rightarrow>
             Inl \<lparr>message = lit ''Unknown error occurred'',
                  statusCode = None,
                  response = None\<rparr>)"

subsection \<open>trackDownload\<close>

text \<open>
  The result is what awaiting the call gives, with the lines written by
  \<^verbatim>\<open>console.error\<close>: the label and the caught value.
\<close>

definition trackDownload ::
  "(jsstring \<Rightarrow> (jsstring \<times> jsstring) list \<Rightarrow> thrown + Response) \<Rightarrow> jsstring \<Rightarrow> jsstring \<Rightarrow>
   (thrown + unit) \<times> (jsstring \<times> thrown) list" where
  "trackDownload fetch accessKey downloadLocation =
     (case fetch downloadLocation [(lit ''Authorization'', lit ''Client-ID '' @ accessKey)] of
        Inl error \<Rightarrow> (Inr (), [(lit ''Failed to track download:'', error)])
      | Inr resp \<Rightarrow> (Inr (), []))"

section \<open>Records of the repository's formatter tests\<close>

text \<open>
  The statistics record of the test of \<^verbatim>\<open>formatStatisticsMarkdown\<close>, and the user,
  photo and collection of the tests of the list formatters, which have none of the
  optional fields but the photo's \<^verbatim>\<open>alt_description\<close>.
\<close>

definition test_stats :: PhotoStatistics where
  "test_stats =
     \<lparr>stats_id = lit ''photo-123'',
      stats_downloads = \<lparr>metric_total = 5000, metric_historical = \<lparr>historical_change = 250\<rparr>\<rparr>,
      stats_views = \<lparr>metric_total = 50000, metric_historical = \<lparr>historical_change = - 100\<rparr>\<rparr>,
      stats_likes = \<lparr>metric_total = 500, metric_historical = \<lparr>historical_change = 10\<rparr>\<rparr>\<rparr>"

definition test_user :: UnsplashUser where
  "test_user =
     \<lparr>user_id = lit ''user-1'',
      user_username = lit ''photographer1'',
      user_name = lit ''Great Photographer'',
      user_bio = None,
      user_location = None,
      user_total_likes = 500,
      user_total_photos = 100,
      user_total_collections = 0,
      user_instagram_username = None,
      user_portfolio_url = None,
      user_links_html = lit ''https://unsplash.com/@photographer1''\<rparr>"

definition test_photo :: UnsplashPhoto where
  "test_photo =
     \<lparr>photo_id = lit ''photo-1'',
      photo_created_at = [],
      photo_width = 1920,
      photo_height = 1080,
      photo_color = [],
      photo_description = None,
      photo_alt_description = Some (lit ''First photo''),
      photo_likes = 10,
      photo_urls_regular = [],
      photo_links_html = lit ''https://unsplash.com/photos/photo-1'',
      photo_user =
        \<lparr>user_id = [],
         user_username = lit ''user1'',
         user_name = lit ''User One'',
         user_bio = None,
         user_location = None,
         user_total_likes = 0,
         user_total_photos = 0,
         user_total_collections = 0,
         user_instagram_username = None,
         user_portfolio_url = None,
         user_links_html = []\<rparr>,
      photo_location = None,
      photo_tags = None\<rparr>"

definition test_collection :: UnsplashCollection where
  "test_collection =
     \<lparr>collection_id = lit ''coll-1'',
      collection_title = lit ''Nature'',
      collection_description = None,
      collection_published_at = [],
      collection_total_photos = 50,
      collection_user =
        \<lparr>user_id = [],
         user_username = lit ''curator1'',
         user_name = lit ''Curator'',
         user_bio = None,
         user_location = None,
         user_total_likes = 0,
         user_total_photos = 0,
         user_total_collections = 0,
         user_instagram_username = None,
         user_portfolio_url = None,
         user_links_html = []\<rparr>,
      collection_links_html = lit ''https://unsplash.com/collections/coll-1''\<rparr>"

section \<open>Properties of strings and of the length guard\<close>

subsection \<open>Decimal notation\<close>

lemma digits_nonempty: "digits n \<noteq> []"
  by (subst digits.simps) simp

text \<open>Evaluating \<open>digits\<close> on a numeral.\<close>

lemma digits_0: "digits 0 = [48]"
  by (simp add: digits.simps)

lemma digits_1: "digits (Suc 0) = [49]"
  by (simp add: digits.simps)

lemma digits_numeral:
  "digits (numeral k) =
     (if (numeral k :: nat) < 10 then [of_nat (48 + numeral k)]
      else digits (numeral k div 10) @ [of_nat (48 + numeral k mod 10)])"
  by (rule digits.simps)

lemmas digits_eval = digits_0 digits_1 digits_numeral

lemma decimal_value_snoc:
  "decimal_value (s @ [c]) = 10 * decimal_value s + (unat c - 48)"
  by (simp add: decimal_value_def)

lemma unat_digit:
  assumes "d < 10"
  shows "unat (of_nat (48 + d) :: code_unit) = 48 + d"
proof -
  have "unat (of_nat (48 + d) :: code_unit) = (48 + d) mod 2 ^ LENGTH(16)"
    by (rule unat_of_nat)
  with assms show ?thesis
    by simp
qed

lemma decimal_value_digits: "decimal_value (digits n) = n"
proof (induction n rule: digits.induct)
  case (1 n)
  show ?case
  proof (cases "n < 10")
    case True
    then have "unat (of_nat (48 + n) :: code_unit) = 48 + n"
      by (rule unat_digit)
    with True show ?thesis
      by (subst digits.simps) (simp add: decimal_value_def)
  next
    case False
    have "unat (of_nat (48 + n mod 10) :: code_unit) = 48 + n mod 10"
      by (rule unat_digit) simp
    with False "1.IH" show ?thesis
      by (subst digits.simps) (simp add: decimal_value_snoc)
  qed
qed

lemma length_digits_le: "0 < k \<Longrightarrow> n < 10 ^ k \<Longrightarrow> length (digits n) \<le> k"
proof (induction n arbitrary: k rule: digits.induct)
  case (1 n)
  show ?case
  proof (cases "n < 10")
    case True
    with "1.prems" show ?thesis
      by (simp add: digits.simps)
  next
    case False
    then obtain j where k: "k = Suc j" and j: "0 < j"
      using "1.prems" by (cases k; cases "k - 1") auto
    have "n div 10 < 10 ^ j"
      using "1.prems" k by (simp add: less_mult_imp_div_less mult.commute)
    from "1.IH"[OF False j this] False k show ?thesis
      by (subst digits.simps) simp
  qed
qed

lemma length_digits_string_bound:
  assumes "n < 2 ^ 53"
  shows "length (digits n) \<le> 16"
proof -
  have "(2::nat) ^ 53 < 10 ^ 16"
    by simp
  with assms have "n < 10 ^ 16"
    by simp
  then show ?thesis
    by (intro length_digits_le) simp_all
qed

subsection \<open>What the guard returns\<close>

lemma substring_prefix: "substring s 0 e = take (nat e) s"
  by (cases "e \<le> int (length s)") (auto simp: substring_def Let_def max_def min_def)

lemma truncateIfNeeded_short:
  "int (length content) \<le> limit \<Longrightarrow> truncateIfNeeded content limit = content"
  by (simp add: truncateIfNeeded_def)

lemma truncateIfNeeded_long:
  "limit < int (length content) \<Longrightarrow>
   truncateIfNeeded content limit =
     take (nat (limit - 100)) content
       @ lit ''\<newline>\<newline>...[Content truncated due to length. Total: ''
       @ digits (length content)
       @ lit '' characters]''"
  by (simp add: truncateIfNeeded_def substring_prefix String_int_def)

lemma truncateIfNeeded_long_length:
  assumes "limit < int (length content)"
  shows "length (truncateIfNeeded content limit) =
           nat (limit - 100) + 58 + length (digits (length content))"
proof -
  have "nat (limit - 100) \<le> length content"
    using assms by linarith
  then show ?thesis
    using assms by (simp add: truncateIfNeeded_long lit_def min_absorb2)
qed

lemma truncateIfNeeded_within_limit:
  assumes "100 \<le> limit" and "length content < 2 ^ 53"
  shows "int (length (truncateIfNeeded content limit)) \<le> limit"
proof (cases "int (length content) \<le> limit")
  case True
  then show ?thesis
    by (simp add: truncateIfNeeded_short)
next
  case False
  then have long: "limit < int (length content)"
    by simp
  have "length (digits (length content)) \<le> 16"
    using assms(2) by (rule length_digits_string_bound)
  with assms(1) show ?thesis
    by (simp add: truncateIfNeeded_long_length[OF long])
qed

text \<open>
  Claim C1, amended. For every string and every ceiling, \<open>truncateIfNeeded\<close> returns
  the text unchanged when its length is at most the ceiling. When the text is longer,
  the result is the first \<open>ceiling - 100\<close> code units of the text (none when
  \<open>ceiling \<le> 100\<close>) followed by the fixed suffix, in which the original length
  stands in decimal notation. The result is no longer than the ceiling when the
  ceiling is at least 100 (and the text is a JavaScript string, of length below
  \<open>2^53\<close>); for a smaller ceiling nothing bounds it.
\<close>

theorem truncateIfNeeded_spec:
  "(int (length text) \<le> limit \<longrightarrow> truncateIfNeeded text limit = text) \<and>
   (limit < int (length text) \<longrightarrow>
      truncateIfNeeded text limit =
        take (nat (limit - 100)) text
          @ lit ''\<newline>\<newline>...[Content truncated due to length. Total: ''
          @ digits (length text)
          @ lit '' characters]'') \<and>
   decimal_value (digits (length text)) = length text \<and>
   (limit < int (length text) \<and> 100 \<le> limit \<and> length text < 2 ^ 53 \<longrightarrow>
      int (length (truncateIfNeeded text limit)) \<le> limit)"
proof (intro conjI impI)
  assume "int (length text) \<le> limit"
  then show "truncateIfNeeded text limit = text"
    by (rule truncateIfNeeded_short)
next
  assume "limit < int (length text)"
  then show "truncateIfNeeded text limit =
      take (nat (limit - 100)) text
        @ lit ''\<newline>\<newline>...[Content truncated due to length. Total: ''
        @ digits (length text)
        @ lit '' characters]''"
    by (rule truncateIfNeeded_long)
next
  show "decimal_value (digits (length text)) = length text"
    by (rule decimal_value_digits)
next
  assume "limit < int (length text) \<and> 100 \<le> limit \<and> length text < 2 ^ 53"
  then show "int (length (truncateIfNeeded text limit)) \<le> limit"
    by (simp add: truncateIfNeeded_within_limit)
qed

text \<open>
  The two calls of the repository's formatter tests: \<open>"Short content"\<close> under the
  ceiling 100, and \<open>"a".repeat(1000)\<close> under the ceiling 500 (97 is the code unit of
  \<open>a\<close>).
\<close>

theorem truncateIfNeeded_spec_witness:
  "truncateIfNeeded (lit ''Short content'') 100 = lit ''Short content'' \<and>
   truncateIfNeeded (replicate 1000 (97 :: code_unit)) 500 =
     replicate 400 97
       @ lit ''\<newline>\<newline>...[Content truncated due to length. Total: 1000 characters]'' \<and>
   int (length (truncateIfNeeded (replicate 1000 (97 :: code_unit)) 500)) \<le> 500"
  using truncateIfNeeded_spec [of "lit ''Short content''" 100]
    truncateIfNeeded_spec [of "replicate 1000 (97 :: code_unit)" 500]
  by (simp add: lit_def digits_eval)

text \<open>
  Claim C1 as stated fails under a small ceiling: an 11-character text under the
  ceiling 10 comes back as the 60-character suffix alone.
\<close>

theorem truncateIfNeeded_small_ceiling_counterexample:
  "(10 :: int) < int (length (lit ''aaaaaaaaaaa'')) \<and>
   truncateIfNeeded (lit ''aaaaaaaaaaa'') 10 =
     lit ''\<newline>\<newline>...[Content truncated due to length. Total: 11 characters]'' \<and>
   \<not> int (length (truncateIfNeeded (lit ''aaaaaaaaaaa'') 10)) \<le> 10"
  by (simp add: truncateIfNeeded_def substring_def String_int_def digits_eval lit_def)

text \<open>
  Claim C10. For every limit of at least 100 and every JavaScript string (length below
  \<open>2^53\<close>), one application of \<open>truncateIfNeeded\<close> gives a text no longer than the
  limit, so a second application returns it unchanged.
\<close>

theorem truncateIfNeeded_idempotent:
  assumes "100 \<le> limit" and "length text < 2 ^ 53"
  shows "int (length (truncateIfNeeded text limit)) \<le> limit \<and>
         truncateIfNeeded (truncateIfNeeded text limit) limit = truncateIfNeeded text limit"
proof -
  have "int (length (truncateIfNeeded text limit)) \<le> limit"
    using assms by (rule truncateIfNeeded_within_limit)
  then show ?thesis
    by (simp add: truncateIfNeeded_short)
qed

theorem truncateIfNeeded_idempotent_witness:
  "(100 :: int) \<le> 500 \<and> length (replicate 1000 (97 :: code_unit)) < 2 ^ 53 \<and>
   int (length (truncateIfNeeded (replicate 1000 (97 :: code_unit)) 500)) \<le> 500 \<and>
   truncateIfNeeded (truncateIfNeeded (replicate 1000 (97 :: code_unit)) 500) 500 =
     truncateIfNeeded (replicate 1000 (97 :: code_unit)) 500"
  using truncateIfNeeded_idempotent [of 500 "replicate 1000 (97 :: code_unit)"]
  by simp

section \<open>Properties of the formatters\<close>

subsection \<open>Signed changes\<close>

lemma signedChange_positive: "0 < c \<Longrightarrow> signedChange c = lit ''+'' @ digits (nat c)"
  by (simp add: signedChange_def String_int_def)

lemma signedChange_zero: "signedChange 0 = lit ''0''"
  by (simp add: signedChange_def String_int_def digits_eval lit_def)

lemma signedChange_negative: "c < 0 \<Longrightarrow> signedChange c = lit ''-'' @ digits (nat (- c))"
  by (simp add: signedChange_def String_int_def)

lemma statisticsParts_changes:
  "statisticsParts toLocaleString stats ! 5 =
     lit ''- Downloads change: ''
       @ signedChange (historical_change (metric_historical (stats_downloads stats)))"
  "statisticsParts toLocaleString stats ! 6 =
     lit ''- Views change: ''
       @ signedChange (historical_change (metric_historical (stats_views stats)))"
  "statisticsParts toLocaleString stats ! 7 =
     lit ''- Likes change: ''
       @ signedChange (historical_change (metric_historical (stats_likes stats)))"
  by (simp_all add: statisticsParts_def)

text \<open>
  Claim C3, amended. For every statistics record, the sixth, seventh and eighth line
  of \<open>formatStatisticsMarkdown\<close> render the historical changes of downloads, views
  and likes. A change is rendered with a leading \<open>+\<close> when it is positive, as
  \<open>0\<close> without a sign when it is zero, and with its \<open>-\<close> when it is negative; 250
  renders \<open>+250\<close> and -100 renders \<open>-100\<close>.
\<close>

theorem formatStatisticsMarkdown_signed_changes:
  "formatStatisticsMarkdown toLocaleString stats =
     join (lit ''\<newline>'') (statisticsParts toLocaleString stats) \<and>
   statisticsParts toLocaleString stats ! 5 =
     lit ''- Downloads change: ''
       @ signedChange (historical_change (metric_historical (stats_downloads stats))) \<and>
   statisticsParts toLocaleString stats ! 6 =
     lit ''- Views change: ''
       @ signedChange (historical_change (metric_historical (stats_views stats))) \<and>
   statisticsParts toLocaleString stats ! 7 =
     lit ''- Likes change: ''
       @ signedChange (historical_change (metric_historical (stats_likes stats))) \<and>
   (0 < change \<longrightarrow> signedChange change = lit ''+'' @ digits (nat change)) \<and>
   signedChange 0 = lit ''0'' \<and>
   (change < 0 \<longrightarrow> signedChange change = lit ''-'' @ digits (nat (- change))) \<and>
   signedChange 250 = lit ''+250'' \<and>
   signedChange (- 100) = lit ''-100''"
proof (intro conjI impI)
  show "formatStatisticsMarkdown toLocaleString stats =
      join (lit ''\<newline>'') (statisticsParts toLocaleString stats)"
    by (simp add: formatStatisticsMarkdown_def)
  show "signedChange 250 = lit ''+250''"
    by (simp add: signedChange_def String_int_def digits_eval lit_def)
  show "signedChange (- 100) = lit ''-100''"
    by (simp add: signedChange_def String_int_def digits_eval lit_def)
qed (simp_all add: statisticsParts_changes signedChange_positive signedChange_zero
    signedChange_negative)

text \<open>
  The record of the repository's test, with the changes 250, -100 and 10, under a
  locale that writes totals without separators.
\<close>

theorem formatStatisticsMarkdown_signed_changes_witness:
  "(0 :: int) < 250 \<and> signedChange 250 = lit ''+'' @ digits 250 \<and>
   (- 100 :: int) < 0 \<and> signedChange (- 100) = lit ''-'' @ digits 100 \<and>
   formatStatisticsMarkdown String_int test_stats =
     lit ''### Photo Statistics (ID: photo-123)\<newline>**Total Downloads**: 5000\<newline>**Total Views**: 50000\<newline>**Total Likes**: 500\<newline>\<newline>**Recent Trends**:\<newline>- Downloads change: +250\<newline>- Views change: -100\<newline>- Likes change: +10''"
  using formatStatisticsMarkdown_signed_changes [of String_int test_stats 250]
    formatStatisticsMarkdown_signed_changes [of String_int test_stats "- 100"]
  by (simp add: statisticsParts_def test_stats_def signedChange_def String_int_def
      digits_eval lit_def)

text \<open>
  Claim C3 as stated fails at zero: a change of 0 is not negative, and it is rendered
  \<open>0\<close>, with no \<open>+\<close> (code unit 43) anywhere in the document.
\<close>

theorem formatStatisticsMarkdown_zero_change_counterexample:
  "(0 :: int) \<le> 0 \<and>
   formatStatisticsMarkdown String_int
     \<lparr>stats_id = lit ''photo-123'',
      stats_downloads = \<lparr>metric_total = 5000, metric_historical = \<lparr>historical_change = 0\<rparr>\<rparr>,
      stats_views = \<lparr>metric_total = 50000, metric_historical = \<lparr>historical_change = 0\<rparr>\<rparr>,
      stats_likes = \<lparr>metric_total = 500, metric_historical = \<lparr>historical_change = 0\<rparr>\<rparr>\<rparr> =
     lit ''### Photo Statistics (ID: photo-123)\<newline>**Total Downloads**: 5000\<newline>**Total Views**: 50000\<newline>**Total Likes**: 500\<newline>\<newline>**Recent Trends**:\<newline>- Downloads change: 0\<newline>- Views change: 0\<newline>- Likes change: 0'' \<and>
   43 \<notin> set (formatStatisticsMarkdown String_int
     \<lparr>stats_id = lit ''photo-123'',
      stats_downloads = \<lparr>metric_total = 5000, metric_historical = \<lparr>historical_change = 0\<rparr>\<rparr>,
      stats_views = \<lparr>metric_total = 50000, metric_historical = \<lparr>historical_change = 0\<rparr>\<rparr>,
      stats_likes = \<lparr>metric_total = 500, metric_historical = \<lparr>historical_change = 0\<rparr>\<rparr>\<rparr>)"
  by (simp add: formatStatisticsMarkdown_def statisticsParts_def signedChange_def String_int_def
      digits_eval lit_def)

subsection \<open>Lines of optional fields\<close>

lemma list_ex_pushIf: "list_ex P (pushIf v label) = (truthy v \<and> P (label @ the v))"
  by (auto simp: pushIf_def truthy_def split: option.splits)

lemma photo_description_line:
  "list_ex (prefix (lit ''**Description**: '')) (photoParts localeDate photo) \<longleftrightarrow>
   truthy (photo_description photo)"
  by (simp add: photoParts_def list_ex_pushIf lit_def split: option.splits)

lemma photo_location_line:
  "list_ex (prefix (lit ''**Location**: '')) (photoParts localeDate photo) \<longleftrightarrow>
   truthy (Option.bind (photo_location photo) location_name)"
  by (simp add: photoParts_def list_ex_pushIf lit_def split: option.splits)

lemma photo_tags_line:
  "list_ex (prefix (lit ''**Tags**: '')) (photoParts localeDate photo) \<longleftrightarrow>
   (case photo_tags photo of None \<Rightarrow> False | Some tags \<Rightarrow> tags \<noteq> [])"
  by (simp add: photoParts_def list_ex_pushIf lit_def split: option.splits)

lemma photo_heading:
  "hd (photoParts localeDate photo) =
     lit ''### ''
       @ orElse (photo_alt_description photo) (orElse (photo_description photo) (lit ''Photo''))"
  by (simp add: photoParts_def)

lemma user_bio_line:
  "list_ex (prefix (lit ''**Bio**: '')) (userParts user) \<longleftrightarrow> truthy (user_bio user)"
  by (simp add: userParts_def list_ex_pushIf lit_def)

lemma user_location_line:
  "list_ex (prefix (lit ''**Location**: '')) (userParts user) \<longleftrightarrow> truthy (user_location user)"
  by (simp add: userParts_def list_ex_pushIf lit_def)

lemma user_instagram_line:
  "list_ex (prefix (lit ''**Instagram**: @'')) (userParts user) \<longleftrightarrow>
   truthy (user_instagram_username user)"
  by (simp add: userParts_def list_ex_pushIf lit_def)

lemma user_portfolio_line:
  "list_ex (prefix (lit ''**Portfolio**: '')) (userParts user) \<longleftrightarrow>
   truthy (user_portfolio_url user)"
  by (simp add: userParts_def list_ex_pushIf lit_def)

lemma collection_description_line:
  "list_ex (prefix (lit ''**Description**: '')) (collectionParts localeDate collection) \<longleftrightarrow>
   truthy (collection_description collection)"
  by (simp add: collectionParts_def list_ex_pushIf lit_def)

lemma length_pushIf: "length (pushIf v label) = of_bool (truthy v)"
  by (simp add: pushIf_def truthy_def split: option.splits)

lemma photoParts_length:
  "length (photoParts localeDate photo) =
     9 + of_bool (truthy (photo_description photo))
       + of_bool (truthy (Option.bind (photo_location photo) location_name))
       + of_bool (case photo_tags photo of None \<Rightarrow> False | Some tags \<Rightarrow> tags \<noteq> [])"
  by (simp add: photoParts_def length_pushIf split: option.splits)

lemma userParts_length:
  "length (userParts user) =
     6 + of_bool (truthy (user_bio user)) + of_bool (truthy (user_location user))
       + of_bool (truthy (user_instagram_username user))
       + of_bool (truthy (user_portfolio_url user))"
  by (simp add: userParts_def length_pushIf)

lemma collectionParts_length:
  "length (collectionParts localeDate collection) =
     6 + of_bool (truthy (collection_description collection))"
  by (simp add: collectionParts_def length_pushIf)

text \<open>
  Claim C7, amended. The formatters are total on the records of \<^verbatim>\<open>types.ts\<close>: no
  field access of theirs can throw, whichever optional fields are absent. The array
  of lines of a photo holds a \<open>Description\<close>, \<open>Location\<close> or \<open>Tags\<close> line exactly
  when the description, the name of the location or the tags are present (and not
  empty); the lines of a user hold a \<open>Bio\<close>, \<open>Location\<close>, \<open>Instagram\<close> or
  \<open>Portfolio\<close> line exactly when that field is present (and not empty); the lines of
  a collection hold a \<open>Description\<close> line exactly when the description is. An
  absent field counts as not present, and each of these fields that is not present
  makes the array one line shorter: nothing stands in its place. The heading of a
  photo is never left out: it shows the \<^verbatim>\<open>alt_description\<close>, the description when
  that is absent, and the placeholder \<open>Photo\<close> when both are.
\<close>

theorem formatters_optional_lines:
  "formatPhotoMarkdown localeDate photo = join (lit ''\<newline>'') (photoParts localeDate photo) \<and>
   formatUserMarkdown user = join (lit ''\<newline>'') (userParts user) \<and>
   formatCollectionMarkdown localeDate collection =
     join (lit ''\<newline>'') (collectionParts localeDate collection) \<and>
   \<not> truthy None \<and>
   (list_ex (prefix (lit ''**Description**: '')) (photoParts localeDate photo) \<longleftrightarrow>
      truthy (photo_description photo)) \<and>
   (list_ex (prefix (lit ''**Location**: '')) (photoParts localeDate photo) \<longleftrightarrow>
      truthy (Option.bind (photo_location photo) location_name)) \<and>
   (list_ex (prefix (lit ''**Tags**: '')) (photoParts localeDate photo) \<longleftrightarrow>
      (case photo_tags photo of None \<Rightarrow> False | Some tags \<Rightarrow> tags \<noteq> [])) \<and>
   (list_ex (prefix (lit ''**Bio**: '')) (userParts user) \<longleftrightarrow> truthy (user_bio user)) \<and>
   (list_ex (prefix (lit ''**Location**: '')) (userParts user) \<longleftrightarrow>
      truthy (user_location user)) \<and>
   (list_ex (prefix (lit ''**Instagram**: @'')) (userParts user) \<longleftrightarrow>
      truthy (user_instagram_username user)) \<and>
   (list_ex (prefix (lit ''**Portfolio**: '')) (userParts user) \<longleftrightarrow>
      truthy (user_portfolio_url user)) \<and>
   (list_ex (prefix (lit ''**Description**: '')) (collectionParts localeDate collection) \<longleftrightarrow>
      truthy (collection_description collection)) \<and>
   length (photoParts localeDate photo) =
     9 + of_bool (truthy (photo_description photo))
       + of_bool (truthy (Option.bind (photo_location photo) location_name))
       + of_bool (case photo_tags photo of None \<Rightarrow> False | Some tags \<Rightarrow> tags \<noteq> []) \<and>
   length (userParts user) =
     6 + of_bool (truthy (user_bio user)) + of_bool (truthy (user_location user))
       + of_bool (truthy (user_instagram_username user))
       + of_bool (truthy (user_portfolio_url user)) \<and>
   length (collectionParts localeDate collection) =
     6 + of_bool (truthy (collection_description collection)) \<and>
   hd (photoParts localeDate photo) =
     lit ''### ''
       @ orElse (photo_alt_description photo) (orElse (photo_description photo) (lit ''Photo'')) \<and>
   orElse None (orElse None (lit ''Photo'')) = lit ''Photo''"
proof (intro conjI)
  show "formatPhotoMarkdown localeDate photo =
      join (lit ''\<newline>'') (photoParts localeDate photo)"
    by (simp add: formatPhotoMarkdown_def)
  show "formatUserMarkdown user = join (lit ''\<newline>'') (userParts user)"
    by (simp add: formatUserMarkdown_def)
  show "formatCollectionMarkdown localeDate collection =
      join (lit ''\<newline>'') (collectionParts localeDate collection)"
    by (simp add: formatCollectionMarkdown_def)
  show "\<not> truthy None"
    by (simp add: truthy_def)
  show "orElse None (orElse None (lit ''Photo'')) = lit ''Photo''"
    by (simp add: orElse_def)
qed (rule photo_description_line photo_location_line photo_tags_line photo_heading
    user_bio_line user_location_line user_instagram_line user_portfolio_line
    collection_description_line photoParts_length userParts_length collectionParts_length)+

text \<open>
  The user, photo and collection of the list formatter tests have none of the optional
  fields that own a line: the documents hold the required lines only. The creation date
  of these records is the empty string, which the runtime renders \<open>Invalid Date\<close>.
\<close>

theorem formatters_optional_lines_witness:
  "\<not> list_ex (prefix (lit ''**Description**: ''))
       (photoParts (\<lambda>created. lit ''Invalid Date'') test_photo) \<and>
   \<not> list_ex (prefix (lit ''**Location**: ''))
       (photoParts (\<lambda>created. lit ''Invalid Date'') test_photo) \<and>
   \<not> list_ex (prefix (lit ''**Tags**: ''))
       (photoParts (\<lambda>created. lit ''Invalid Date'') test_photo) \<and>
   hd (photoParts (\<lambda>created. lit ''Invalid Date'') test_photo) = lit ''### First photo'' \<and>
   \<not> list_ex (prefix (lit ''**Bio**: '')) (userParts test_user) \<and>
   \<not> list_ex (prefix (lit ''**Location**: '')) (userParts test_user) \<and>
   \<not> list_ex (prefix (lit ''**Instagram**: @'')) (userParts test_user) \<and>
   \<not> list_ex (prefix (lit ''**Portfolio**: '')) (userParts test_user) \<and>
   \<not> list_ex (prefix (lit ''**Description**: ''))
       (collectionParts (\<lambda>created. lit ''Invalid Date'') test_collection) \<and>
   length (photoParts (\<lambda>created. lit ''Invalid Date'') test_photo) = 9 \<and>
   length (userParts test_user) = 6 \<and>
   length (collectionParts (\<lambda>created. lit ''Invalid Date'') test_collection) = 6 \<and>
   formatUserMarkdown test_user =
     lit ''### Great Photographer (@photographer1)\<newline>**ID**: user-1\<newline>**Total Photos**: 100\<newline>**Total Likes**: 500\<newline>**Total Collections**: 0\<newline>**Unsplash Profile**: https://unsplash.com/@photographer1''"
  using formatters_optional_lines
    [of "\<lambda>created. lit ''Invalid Date''" test_photo test_user test_collection]
  by (simp add: test_photo_def test_user_def test_collection_def truthy_def orElse_def
      userParts_def pushIf_def String_int_def digits_eval lit_def)

text \<open>
  Claim C7 as stated fails for \<^verbatim>\<open>alt_description\<close>: when it is absent, and the
  description with it, the heading is not left out but shows the placeholder \<open>Photo\<close>,
  in \<open>formatPhotoMarkdown\<close> and in \<open>formatPhotosListMarkdown\<close> alike.
\<close>

theorem formatPhotoMarkdown_placeholder_counterexample:
  "photo_alt_description (test_photo\<lparr>photo_alt_description := None\<rparr>) = None \<and>
   photo_description (test_photo\<lparr>photo_alt_description := None\<rparr>) = None \<and>
   formatPhotoMarkdown (\<lambda>created. lit ''Invalid Date'')
       (test_photo\<lparr>photo_alt_description := None\<rparr>) =
     lit ''### Photo\<newline>**ID**: photo-1\<newline>**Photographer**: User One (@user1)\<newline>**Dimensions**: 1920 ''
       @ [0xD7]
       @ lit '' 1080px\<newline>**Color**: \<newline>**Likes**: 10\<newline>**Created**: Invalid Date\<newline>**Unsplash URL**: https://unsplash.com/photos/photo-1\<newline>**Download URL**: '' \<and>
   formatPhotosListMarkdown [test_photo\<lparr>photo_alt_description := None\<rparr>] =
     lit ''1. **Photo** (ID: photo-1)\<newline>   - By User One (@user1)\<newline>   - 1920 ''
       @ [0xD7]
       @ lit '' 1080px | 10 likes\<newline>   - https://unsplash.com/photos/photo-1''"
  by (simp add: test_photo_def formatPhotoMarkdown_def photoParts_def formatPhotosListMarkdown_def
      orElse_def pushIf_def String_int_def digits_eval lit_def)

section \<open>Properties of the client\<close>

subsection \<open>The request URL\<close>

lemma Object_entries_filter:
  "Object_entries (filter (\<lambda>(key, value). P value) obj) =
   filter (\<lambda>(key, value). P value) (Object_entries obj)"
proof -
  have swap: "filter Q (filter R xs) = filter R (filter Q xs)"
    for Q R and xs :: "(jsstring \<times> 'a) list"
    by (induction xs) auto
  show ?thesis
    unfolding Object_entries_def filter_append filter_sort
    by (simp only: swap)
qed

lemma Object_entries_insertion_order:
  assumes "\<forall>(key, value) \<in> set obj. array_index key = None"
  shows "Object_entries obj = obj"
proof -
  have "filter (\<lambda>(key, value). array_index key \<noteq> None) obj = []"
    using assms by (auto simp: filter_empty_conv)
  moreover have "filter (\<lambda>(key, value). array_index key = None) obj = obj"
    using assms by (auto simp: filter_id_conv)
  ultimately show ?thesis
    by (simp add: Object_entries_def)
qed

lemma queryParams_skips_undefined:
  "queryParams (Some obj) =
   queryParams (Some (filter (\<lambda>(key, value). value \<noteq> PUndefined) obj))"
  by (simp add: queryParams_def Object_entries_filter)

lemma queryParams_pairs:
  "URLSearchParams_toString (queryParams (Some obj)) =
     join (lit ''&'')
       (map (\<lambda>(key, value). urlencode key @ lit ''='' @ urlencode (String_param value))
         (filter (\<lambda>(key, value). value \<noteq> PUndefined) (Object_entries obj)))"
  by (simp add: URLSearchParams_toString_def queryParams_def case_prod_unfold comp_def)

lemma code_points_ascii:
  assumes "\<forall>c \<in> set s. unat c < 0x80"
  shows "code_points s = map unat s"
  using assms
proof (induction s rule: code_points.induct)
  case 1
  then show ?case
    by simp
next
  case (2 u)
  then have "unat u < 0x80"
    by simp
  then have "\<not> high_surrogate u" and "\<not> low_surrogate u"
    by (simp_all add: high_surrogate_def low_surrogate_def word_le_nat_alt)
  then show ?case
    by (simp add: scalar_value_def)
next
  case (3 u v rest)
  then have "unat u < 0x80"
    by simp
  then have "\<not> high_surrogate u" and "\<not> low_surrogate u"
    by (simp_all add: high_surrogate_def low_surrogate_def word_le_nat_alt)
  with 3 show ?case
    by (simp add: scalar_value_def)
qed

lemma unreserved_ascii: "unreserved b \<Longrightarrow> b < 0x80"
  by (auto simp: unreserved_def)

lemma urlencode_unreserved:
  assumes "\<forall>c \<in> set s. unreserved (unat c)"
  shows "urlencode s = s"
proof -
  have ascii: "\<forall>c \<in> set s. unat c < 0x80"
    using assms unreserved_ascii by blast
  have "concat (map urlencode_byte (concat (map utf8 (map unat s)))) = s"
    using assms
  proof (induction s)
    case Nil
    then show ?case
      by simp
  next
    case (Cons c s)
    then have u: "unreserved (unat c)"
      by simp
    then have "unat c < 0x80"
      by (rule unreserved_ascii)
    moreover have "unat c \<noteq> 32"
      using u by (auto simp: unreserved_def)
    ultimately have "urlencode_byte (unat c) = [c]" and "utf8 (unat c) = [unat c]"
      using u by (simp_all add: urlencode_byte_def utf8_def)
    with Cons show ?case
      by simp
  qed
  then show ?thesis
    by (simp add: urlencode_def code_points_ascii[OF ascii])
qed

lemma makeRequest_fetch_once:
  assumes "fetch (requestUrl endpoint params) (requestHeaders accessKey) =
           fetch' (requestUrl endpoint params) (requestHeaders accessKey)"
  shows "makeRequest fetch JSON_parse Number_toString accessKey endpoint params =
         makeRequest fetch' JSON_parse Number_toString accessKey endpoint params"
  using assms by (simp add: makeRequest_def)

lemmas url_eval =
  lit_def digits_eval String_int_def decimal_value_def array_index_def Object_entries_def
  high_surrogate_def low_surrogate_def scalar_value_def utf8_def unreserved_def hex_digit_def
  urlencode_byte_def urlencode_def URLSearchParams_toString_def queryParams_def requestUrl_def
  UNSPLASH_API_URL_def

text \<open>
  Claim C4, amended. For every parameter object, the entries whose value is
  \<^verbatim>\<open>undefined\<close> make no difference to the URL. The query string is the entries that
  remain, each written \<open>name=value\<close> with the name the URL-encoded key and the value
  the URL-encoded \<^verbatim>\<open>String(value)\<close> (a number in decimal, a boolean as \<open>true\<close> or
  \<open>false\<close>), joined by \<open>&\<close> in the order of \<^verbatim>\<open>Object.entries\<close>, which is the
  insertion order when no key is an array index. URL encoding leaves a string of ASCII
  letters, digits and \<open>* - . _\<close> as it is and rewrites every other character (a space
  becomes \<open>+\<close>). The URL is the base URL and the endpoint, followed by \<open>?\<close> and the
  query string when the query string is not empty, and it is the one URL
  \<open>makeRequest\<close> hands to \<^verbatim>\<open>fetch\<close>.
\<close>

theorem requestUrl_query_string:
  "requestUrl endpoint (Some obj) =
     requestUrl endpoint (Some (filter (\<lambda>(key, value). value \<noteq> PUndefined) obj)) \<and>
   URLSearchParams_toString (queryParams (Some obj)) =
     join (lit ''&'')
       (map (\<lambda>(key, value). urlencode key @ lit ''='' @ urlencode (String_param value))
         (filter (\<lambda>(key, value). value \<noteq> PUndefined) (Object_entries obj))) \<and>
   ((\<forall>(key, value) \<in> set obj. array_index key = None) \<longrightarrow> Object_entries obj = obj) \<and>
   ((\<forall>c \<in> set s. unreserved (unat c)) \<longrightarrow> urlencode s = s) \<and>
   String_param (PNumber n) = String_int n \<and>
   String_param (PBoolean True) = lit ''true'' \<and>
   String_param (PBoolean False) = lit ''false'' \<and>
   requestUrl endpoint params =
     UNSPLASH_API_URL @ endpoint
       @ (if URLSearchParams_toString (queryParams params) = [] then []
          else lit ''?'' @ URLSearchParams_toString (queryParams params)) \<and>
   requestUrl endpoint None = UNSPLASH_API_URL @ endpoint \<and>
   (fetch (requestUrl endpoint params) (requestHeaders accessKey) =
      fetch' (requestUrl endpoint params) (requestHeaders accessKey) \<longrightarrow>
    makeRequest fetch JSON_parse Number_toString accessKey endpoint params =
      makeRequest fetch' JSON_parse Number_toString accessKey endpoint params)"
proof (intro conjI impI)
  show "requestUrl endpoint (Some obj) =
      requestUrl endpoint (Some (filter (\<lambda>(key, value). value \<noteq> PUndefined) obj))"
    unfolding requestUrl_def by (subst (1 2) queryParams_skips_undefined) (rule refl)
  show "URLSearchParams_toString (queryParams (Some obj)) =
      join (lit ''&'')
        (map (\<lambda>(key, value). urlencode key @ lit ''='' @ urlencode (String_param value))
          (filter (\<lambda>(key, value). value \<noteq> PUndefined) (Object_entries obj)))"
    by (rule queryParams_pairs)
  show "Object_entries obj = obj" if "\<forall>(key, value) \<in> set obj. array_index key = None"
    using that by (rule Object_entries_insertion_order)
  show "urlencode s = s" if "\<forall>c \<in> set s. unreserved (unat c)"
    using that by (rule urlencode_unreserved)
  show "requestUrl endpoint params =
      UNSPLASH_API_URL @ endpoint
        @ (if URLSearchParams_toString (queryParams params) = [] then []
           else lit ''?'' @ URLSearchParams_toString (queryParams params))"
    by (simp add: requestUrl_def)
  show "requestUrl endpoint None = UNSPLASH_API_URL @ endpoint"
    by (simp add: requestUrl_def queryParams_def URLSearchParams_toString_def)
  show "makeRequest fetch JSON_parse Number_toString accessKey endpoint params =
      makeRequest fetch' JSON_parse Number_toString accessKey endpoint params"
    if "fetch (requestUrl endpoint params) (requestHeaders accessKey) =
        fetch' (requestUrl endpoint params) (requestHeaders accessKey)"
    using that by (rule makeRequest_fetch_once)
qed simp_all

text \<open>
  The two parameter objects of the repository's client tests, and a call without
  parameters.
\<close>

theorem requestUrl_query_string_witness:
  "requestUrl (lit ''/search/photos'')
     (Some [(lit ''query'', PString (lit ''nature'')), (lit ''page'', PUndefined)]) =
     requestUrl (lit ''/search/photos'') (Some [(lit ''query'', PString (lit ''nature''))]) \<and>
   requestUrl (lit ''/search/photos'')
     (Some [(lit ''query'', PString (lit ''nature'')), (lit ''page'', PUndefined)]) =
     lit ''https://api.unsplash.com/search/photos?query=nature'' \<and>
   Object_entries
     [(lit ''query'', PString (lit ''nature'')), (lit ''page'', PNumber 1),
      (lit ''per_page'', PNumber 10)] =
     [(lit ''query'', PString (lit ''nature'')), (lit ''page'', PNumber 1),
      (lit ''per_page'', PNumber 10)] \<and>
   urlencode (lit ''per_page'') = lit ''per_page'' \<and>
   requestUrl (lit ''/search/photos'')
     (Some [(lit ''query'', PString (lit ''nature'')), (lit ''page'', PNumber 1),
            (lit ''per_page'', PNumber 10)]) =
     lit ''https://api.unsplash.com/search/photos?query=nature&page=1&per_page=10'' \<and>
   requestUrl (lit ''/photos'') None = lit ''https://api.unsplash.com/photos''"
proof -
  let ?obj = "[(lit ''query'', PString (lit ''nature'')), (lit ''page'', PNumber 1),
      (lit ''per_page'', PNumber 10)]"
  let ?skipped = "[(lit ''query'', PString (lit ''nature'')), (lit ''page'', PUndefined)]"
  note spec = requestUrl_query_string [of "lit ''/search/photos''" ?obj "lit ''per_page''"]
  note skip = requestUrl_query_string [of "lit ''/search/photos''" ?skipped, THEN conjunct1]
  have keys: "\<forall>(key, value) \<in> set ?obj. array_index key = None"
    by (simp add: array_index_def decimal_value_def lit_def digits_eval)
  have chars: "\<forall>c \<in> set (lit ''per_page''). unreserved (unat c)"
    by (simp add: lit_def unreserved_def)
  from keys have order: "Object_entries ?obj = ?obj"
    by (rule spec [THEN conjunct2, THEN conjunct2, THEN conjunct1, THEN mp])
  from chars have enc: "urlencode (lit ''per_page'') = lit ''per_page''"
    by (rule spec [THEN conjunct2, THEN conjunct2, THEN conjunct2, THEN conjunct1, THEN mp])
  from skip have dropped: "requestUrl (lit ''/search/photos'') (Some ?skipped) =
      requestUrl (lit ''/search/photos'') (Some [(lit ''query'', PString (lit ''nature''))])"
    by simp
  have url1: "requestUrl (lit ''/search/photos'') (Some ?skipped) =
      lit ''https://api.unsplash.com/search/photos?query=nature''"
    by (simp add: url_eval)
  have url2: "requestUrl (lit ''/search/photos'') (Some ?obj) =
      lit ''https://api.unsplash.com/search/photos?query=nature&page=1&per_page=10''"
    by (simp add: url_eval)
  have url3: "requestUrl (lit ''/photos'') None = lit ''https://api.unsplash.com/photos''"
    by (simp add: url_eval)
  from dropped url1 order enc url2 url3 show ?thesis
    by (intro conjI)
qed

text \<open>
  Claim C4 as stated fails for a value with a character that URL encoding rewrites:
  the entry of the query \<open>new york\<close> does not appear as \<open>query=new york\<close>. It
  also fails for a key that is an array index: the entry of the key \<open>1\<close>, inserted
  after the entry of the key \<open>b\<close>, comes first.
\<close>

theorem requestUrl_encoding_counterexample:
  "requestUrl (lit ''/search/photos'') (Some [(lit ''query'', PString (lit ''new york''))]) =
     lit ''https://api.unsplash.com/search/photos?query=new+york'' \<and>
   requestUrl (lit ''/search/photos'') (Some [(lit ''query'', PString (lit ''new york''))]) \<noteq>
     lit ''https://api.unsplash.com/search/photos?query=new york'' \<and>
   requestUrl (lit ''/photos'')
     (Some [(lit ''b'', PString (lit ''x'')), (lit ''1'', PString (lit ''y''))]) =
     lit ''https://api.unsplash.com/photos?1=y&b=x'' \<and>
   requestUrl (lit ''/photos'')
     (Some [(lit ''b'', PString (lit ''x'')), (lit ''1'', PString (lit ''y''))]) \<noteq>
     lit ''https://api.unsplash.com/photos?b=x&1=y''"
  by (simp add: url_eval)

subsection \<open>Errors of makeRequest\<close>

lemma genericMessage_truthy: "js_truthy (genericMessage status_code)"
  by (simp add: genericMessage_def js_truthy_def lit_def)

lemma errorMessage_truthy: "js_truthy (errorMessage JSON_parse status_code errorText)"
  using genericMessage_truthy [of status_code]
  by (auto simp: errorMessage_def js_or_def Let_def split: sum.splits)

lemma errorMessage_defined: "errorMessage JSON_parse status_code errorText \<noteq> JUndefined"
  using errorMessage_truthy [of JSON_parse status_code errorText]
  by (auto simp: js_truthy_def)

lemma all_results_thrown: "all_results rs = Inl t \<Longrightarrow> Inl t \<in> set rs"
  by (induction rs) (auto split: sum.splits)

lemma ToString_thrown: "ToString Number_toString v = Inl t \<Longrightarrow> t = conversion_error"
proof (induction Number_toString v arbitrary: t rule: ToString.induct)
  case (6 Number_toString xs)
  from "6.prems" have "all_results
      (map (\<lambda>x. if x = JUndefined \<or> x = JNull then Inr []
                 else ToString Number_toString x) xs) = Inl t"
    by (simp split: sum.splits)
  then have "Inl t \<in> set (map (\<lambda>x. if x = JUndefined \<or> x = JNull then Inr []
      else ToString Number_toString x) xs)"
    by (rule all_results_thrown)
  then obtain x where "x \<in> set xs" and "\<not> (x = JUndefined \<or> x = JNull)"
    and "ToString Number_toString x = Inl t"
    by (auto split: if_splits)
  then show ?case
    by (rule "6.IH")
next
  case (7 Number_toString ps)
  then show ?case
    by (simp split: if_splits)
qed simp_all

lemma makeRequest_not_ok:
  assumes "fetch (requestUrl endpoint params) (requestHeaders accessKey) = Inr resp"
    and "\<not> ok resp" and "text_result resp = Inr errorText"
  shows "makeRequest fetch JSON_parse Number_toString accessKey endpoint params =
           (case ToString Number_toString (errorMessage JSON_parse (status resp) errorText) of
              Inr string \<Rightarrow>
                Inl \<lparr>message = string,
                     statusCode = Some (status resp),
                     response = Some (BodyText errorText)\<rparr>
            | Inl (APIError error) \<Rightarrow> Inl error
            | Inl (PlainError error_message) \<Rightarrow>
                Inl \<lparr>message = lit ''Network error: '' @ error_message,
                     statusCode = None,
                     response = Some (ErrorObject error_message)\<rparr>
            | Inl (NonError v) \<Rightarrow>
                Inl \<lparr>message = lit ''Unknown error occurred'',
                     statusCode = None,
                     response = None\<rparr>)"
  using assms
  by (simp add: makeRequest_def new_UnsplashAPIError_def errorMessage_defined
      split: sum.splits thrown.splits)

lemma makeRequest_converted:
  assumes "fetch (requestUrl endpoint params) (requestHeaders accessKey) = Inr resp"
    and "\<not> ok resp" and "text_result resp = Inr errorText"
    and "ToString Number_toString (errorMessage JSON_parse (status resp) errorText) = Inr string"
  shows "makeRequest fetch JSON_parse Number_toString accessKey endpoint params =
           Inl \<lparr>message = string,
                statusCode = Some (status resp),
                response = Some (BodyText errorText)\<rparr>"
  using assms
    makeRequest_not_ok
    [where fetch = fetch and resp = resp and errorText = errorText
      and JSON_parse = JSON_parse and Number_toString = Number_toString
      and endpoint = endpoint and params = params and accessKey = accessKey]
  by simp

lemma makeRequest_not_converted:
  assumes "fetch (requestUrl endpoint params) (requestHeaders accessKey) = Inr resp"
    and "\<not> ok resp" and "text_result resp = Inr errorText"
    and "ToString Number_toString (errorMessage JSON_parse (status resp) errorText) = Inl t"
  shows "makeRequest fetch JSON_parse Number_toString accessKey endpoint params =
           Inl \<lparr>message = lit ''Network error: Cannot convert object to primitive value'',
                statusCode = None,
                response = Some (ErrorObject (lit ''Cannot convert object to primitive value''))\<rparr>"
proof -
  from assms(4) have "t = conversion_error"
    by (rule ToString_thrown)
  with assms show ?thesis
    using makeRequest_not_ok
      [where fetch = fetch and resp = resp and errorText = errorText
        and JSON_parse = JSON_parse and Number_toString = Number_toString
        and endpoint = endpoint and params = params and accessKey = accessKey]
    by (simp add: conversion_error_def lit_def)
qed

lemma makeRequest_rejected:
  assumes "fetch (requestUrl endpoint params) (requestHeaders accessKey) = Inl thrown_value"
  shows "makeRequest fetch JSON_parse Number_toString accessKey endpoint params =
           (case thrown_value of
              APIError error \<Rightarrow> Inl error
            | PlainError error_message \<Rightarrow>
                Inl \<lparr>message = lit ''Network error: '' @ error_message,
                     statusCode = None,
                     response = Some (ErrorObject error_message)\<rparr>
            | NonError v \<Rightarrow>
                Inl \<lparr>message = lit ''Unknown error occurred'',
                     statusCode = None,
                     response = None\<rparr>)"
  using assms by (simp add: makeRequest_def)

lemma makeRequest_body_rejected:
  assumes "fetch (requestUrl endpoint params) (requestHeaders accessKey) = Inr resp"
    and "(\<not> ok resp \<and> text_result resp = Inl thrown_value) \<or>
         (ok resp \<and> json_result resp = Inl thrown_value)"
  shows "makeRequest fetch JSON_parse Number_toString accessKey endpoint params =
           (case thrown_value of
              APIError error \<Rightarrow> Inl error
            | PlainError error_message \<Rightarrow>
                Inl \<lparr>message = lit ''Network error: '' @ error_message,
                     statusCode = None,
                     response = Some (ErrorObject error_message)\<rparr>
            | NonError v \<Rightarrow>
                Inl \<lparr>message = lit ''Unknown error occurred'',
                     statusCode = None,
                     response = None\<rparr>)"
  using assms by (auto simp: makeRequest_def)

lemma errorMessage_parsed:
  assumes "JSON_parse errorText = Inr errorJson" and "\<not> nullish errorJson"
  shows "errorMessage JSON_parse status_code errorText =
           (if js_truthy (errors_first errorJson) then errors_first errorJson
            else if js_truthy (js_get errorJson (lit ''error''))
              then js_get errorJson (lit ''error'')
            else genericMessage status_code)"
  using assms by (simp add: errorMessage_def js_or_def)

lemma errorMessage_caught:
  assumes "JSON_parse errorText = Inl t \<or> JSON_parse errorText = Inr JNull"
  shows "errorMessage JSON_parse status_code errorText =
           (if errorText \<noteq> [] then JString errorText else genericMessage status_code)"
  using assms by (auto simp: errorMessage_def js_or_def js_truthy_def nullish_def)

lemma array_index_0: "array_index (lit ''0'') = Some 0"
  by (simp add: array_index_def decimal_value_def lit_def digits_eval)

lemma errors_first_array:
  assumes "map_of ps (lit ''errors'') = Some (JArray (e # es))"
  shows "errors_first (JObject ps) = e"
  using assms by (simp add: errors_first_def nullish_def array_index_0)

lemma errors_first_absent:
  assumes "map_of ps (lit ''errors'') = None \<or> map_of ps (lit ''errors'') = Some (JArray [])"
  shows "errors_first (JObject ps) = JUndefined"
  using assms by (auto simp: errors_first_def nullish_def array_index_0)

lemmas client_eval =
  makeRequest_def new_UnsplashAPIError_def conversion_error_def integer_notation_def
  error_response_def errorMessage_def errors_first_def genericMessage_def
  js_or_def js_truthy_def nullish_def array_index_def decimal_value_def String_int_def
  digits_eval lit_def

text \<open>
  Claim C2, amended. For every response that is not \<^verbatim>\<open>ok\<close> and whose body text is
  read, the error thrown carries as its message the conversion to a string of the value
  chosen so: when the body parses as JSON to a value other than \<^verbatim>\<open>null\<close>, the value
  is \<^verbatim>\<open>errors?.[0]\<close> (the first element of an array-valued \<^verbatim>\<open>errors\<close> field) when
  that is truthy, else the \<^verbatim>\<open>error\<close> field when that is truthy, else the generic
  message with the status; when the body does not parse as JSON (or parses to
  \<^verbatim>\<open>null\<close>), the value is the body text itself, and the generic message only when
  the body is empty. A string is its own conversion, a number converts to its notation
  and an object without a \<^verbatim>\<open>toString\<close> property to \<open>[object Object]\<close>. When the
  conversion throws, the error thrown is the one for a caught \<^verbatim>\<open>Error\<close> instead,
  with the message \<open>Network error: Cannot convert object to primitive value\<close>.
\<close>

theorem makeRequest_error_message:
  assumes "fetch (requestUrl endpoint params) (requestHeaders accessKey) = Inr resp"
    and "\<not> ok resp" and "text_result resp = Inr errorText"
  shows "(ToString Number_toString (errorMessage JSON_parse (status resp) errorText) =
            Inr string \<longrightarrow>
          makeRequest fetch JSON_parse Number_toString accessKey endpoint params =
            Inl \<lparr>message = string,
                 statusCode = Some (status resp),
                 response = Some (BodyText errorText)\<rparr>) \<and>
         (ToString Number_toString (errorMessage JSON_parse (status resp) errorText) =
            Inl thrown_value \<longrightarrow>
          makeRequest fetch JSON_parse Number_toString accessKey endpoint params =
            Inl \<lparr>message = lit ''Network error: Cannot convert object to primitive value'',
                 statusCode = None,
                 response =
                   Some (ErrorObject (lit ''Cannot convert object to primitive value''))\<rparr>) \<and>
         ToString Number_toString (JString s) = Inr s \<and>
         ToString Number_toString (JNumber n) = Inr (Number_toString n) \<and>
         (map_of qs (lit ''toString'') = None \<longrightarrow>
            ToString Number_toString (JObject qs) = Inr (lit ''[object Object]'')) \<and>
         (JSON_parse errorText = Inr errorJson \<and> \<not> nullish errorJson \<and>
            js_truthy (errors_first errorJson) \<longrightarrow>
            errorMessage JSON_parse (status resp) errorText = errors_first errorJson) \<and>
         (JSON_parse errorText = Inr errorJson \<and> \<not> nullish errorJson \<and>
            \<not> js_truthy (errors_first errorJson) \<and>
            js_truthy (js_get errorJson (lit ''error'')) \<longrightarrow>
            errorMessage JSON_parse (status resp) errorText = js_get errorJson (lit ''error'')) \<and>
         (JSON_parse errorText = Inr errorJson \<and> \<not> nullish errorJson \<and>
            \<not> js_truthy (errors_first errorJson) \<and>
            \<not> js_truthy (js_get errorJson (lit ''error'')) \<longrightarrow>
            errorMessage JSON_parse (status resp) errorText = genericMessage (status resp)) \<and>
         ((JSON_parse errorText = Inl t \<or> JSON_parse errorText = Inr JNull) \<and>
            errorText \<noteq> [] \<longrightarrow>
            errorMessage JSON_parse (status resp) errorText = JString errorText) \<and>
         ((JSON_parse errorText = Inl t \<or> JSON_parse errorText = Inr JNull) \<and>
            errorText = [] \<longrightarrow>
            errorMessage JSON_parse (status resp) errorText = genericMessage (status resp)) \<and>
         (map_of ps (lit ''errors'') = Some (JArray (e # es)) \<longrightarrow>
            errors_first (JObject ps) = e) \<and>
         (map_of ps (lit ''errors'') = None \<or> map_of ps (lit ''errors'') = Some (JArray []) \<longrightarrow>
            errors_first (JObject ps) = JUndefined) \<and>
         js_get (JObject ps) (lit ''error'') =
           (case map_of ps (lit ''error'') of Some v \<Rightarrow> v | None \<Rightarrow> JUndefined) \<and>
         genericMessage (status resp) =
           JString (lit ''Unsplash API error ('' @ String_int (status resp) @ lit '')'')"
proof (intro conjI impI)
  assume "ToString Number_toString (errorMessage JSON_parse (status resp) errorText) =
    Inr string"
  with assms show "makeRequest fetch JSON_parse Number_toString accessKey endpoint params =
      Inl \<lparr>message = string,
           statusCode = Some (status resp),
           response = Some (BodyText errorText)\<rparr>"
    by (rule makeRequest_converted)
next
  assume "ToString Number_toString (errorMessage JSON_parse (status resp) errorText) =
    Inl thrown_value"
  with assms show "makeRequest fetch JSON_parse Number_toString accessKey endpoint params =
      Inl \<lparr>message = lit ''Network error: Cannot convert object to primitive value'',
           statusCode = None,
           response = Some (ErrorObject (lit ''Cannot convert object to primitive value''))\<rparr>"
    by (rule makeRequest_not_converted)
next
  show "ToString Number_toString (JString s) = Inr s"
    by simp
next
  show "ToString Number_toString (JNumber n) = Inr (Number_toString n)"
    by simp
next
  assume "map_of qs (lit ''toString'') = None"
  then show "ToString Number_toString (JObject qs) = Inr (lit ''[object Object]'')"
    by simp
next
  assume "JSON_parse errorText = Inr errorJson \<and> \<not> nullish errorJson \<and>
    js_truthy (errors_first errorJson)"
  then show "errorMessage JSON_parse (status resp) errorText = errors_first errorJson"
    by (simp add: errorMessage_parsed)
next
  assume "JSON_parse errorText = Inr errorJson \<and> \<not> nullish errorJson \<and>
    \<not> js_truthy (errors_first errorJson) \<and> js_truthy (js_get errorJson (lit ''error''))"
  then show "errorMessage JSON_parse (status resp) errorText = js_get errorJson (lit ''error'')"
    by (simp add: errorMessage_parsed)
next
  assume "JSON_parse errorText = Inr errorJson \<and> \<not> nullish errorJson \<and>
    \<not> js_truthy (errors_first errorJson) \<and> \<not> js_truthy (js_get errorJson (lit ''error''))"
  then show "errorMessage JSON_parse (status resp) errorText = genericMessage (status resp)"
    by (simp add: errorMessage_parsed)
next
  assume "(JSON_parse errorText = Inl t \<or> JSON_parse errorText = Inr JNull) \<and>
    errorText \<noteq> []"
  then have "JSON_parse errorText = Inl t \<or> JSON_parse errorText = Inr JNull"
    and "errorText \<noteq> []"
    by blast+
  then show "errorMessage JSON_parse (status resp) errorText = JString errorText"
    by (simp add: errorMessage_caught)
next
  assume "(JSON_parse errorText = Inl t \<or> JSON_parse errorText = Inr JNull) \<and>
    errorText = []"
  then have "JSON_parse errorText = Inl t \<or> JSON_parse errorText = Inr JNull"
    and "errorText = []"
    by blast+
  then show "errorMessage JSON_parse (status resp) errorText = genericMessage (status resp)"
    using errorMessage_caught [of JSON_parse errorText t "status resp"] by auto
next
  assume "map_of ps (lit ''errors'') = Some (JArray (e # es))"
  then show "errors_first (JObject ps) = e"
    by (rule errors_first_array)
next
  assume "map_of ps (lit ''errors'') = None \<or> map_of ps (lit ''errors'') = Some (JArray [])"
  then show "errors_first (JObject ps) = JUndefined"
    by (rule errors_first_absent)
next
  show "js_get (JObject ps) (lit ''error'') =
      (case map_of ps (lit ''error'') of Some v \<Rightarrow> v | None \<Rightarrow> JUndefined)"
    by simp
next
  show "genericMessage (status resp) =
      JString (lit ''Unsplash API error ('' @ String_int (status resp) @ lit '')'')"
    by (simp add: genericMessage_def)
qed

text \<open>
  Seven responses, each with what \<^verbatim>\<open>JSON.parse\<close> makes of its body: the body
  \<open>{"errors":["Unauthorized"],"error":"Denied"}\<close> under status 401, the body
  \<open>{"error":"Not found"}\<close> under 404, the body \<open>{}\<close> under 500, the plain text
  \<open>Rate Limit Exceeded\<close> under 403 and the empty body under 502 (the last two do not
  parse), the body \<open>{"error":{"code":42}}\<close> under 422, whose message is an object, and
  the body \<open>{"error":{"toString":1}}\<close> under 400, whose message does not convert.
\<close>

theorem makeRequest_error_message_witness:
  "makeRequest
     (\<lambda>url headers. Inr (error_response 401
        (lit ''{\"errors\":[\"Unauthorized\"],\"error\":\"Denied\"}'')))
     (\<lambda>text. Inr (JObject
        [(lit ''errors'', JArray [JString (lit ''Unauthorized'')]),
         (lit ''error'', JString (lit ''Denied''))]))
     integer_notation (lit ''test-key'') (lit ''/search/photos'') None =
     Inl \<lparr>message = lit ''Unauthorized'', statusCode = Some 401,
          response = Some (BodyText
            (lit ''{\"errors\":[\"Unauthorized\"],\"error\":\"Denied\"}''))\<rparr> \<and>
   makeRequest
     (\<lambda>url headers. Inr (error_response 404 (lit ''{\"error\":\"Not found\"}'')))
     (\<lambda>text. Inr (JObject [(lit ''error'', JString (lit ''Not found''))]))
     integer_notation (lit ''test-key'') (lit ''/search/photos'') None =
     Inl \<lparr>message = lit ''Not found'', statusCode = Some 404,
          response = Some (BodyText (lit ''{\"error\":\"Not found\"}''))\<rparr> \<and>
   makeRequest
     (\<lambda>url headers. Inr (error_response 500 (lit ''{}'')))
     (\<lambda>text. Inr (JObject []))
     integer_notation (lit ''test-key'') (lit ''/search/photos'') None =
     Inl \<lparr>message = lit ''Unsplash API error (500)'', statusCode = Some 500,
          response = Some (BodyText (lit ''{}''))\<rparr> \<and>
   makeRequest
     (\<lambda>url headers. Inr (error_response 403 (lit ''Rate Limit Exceeded'')))
     (\<lambda>text. Inl (PlainError (lit ''Unexpected token R in JSON at position 0'')))
     integer_notation (lit ''test-key'') (lit ''/search/photos'') None =
     Inl \<lparr>message = lit ''Rate Limit Exceeded'', statusCode = Some 403,
          response = Some (BodyText (lit ''Rate Limit Exceeded''))\<rparr> \<and>
   makeRequest
     (\<lambda>url headers. Inr (error_response 502 []))
     (\<lambda>text. Inl (PlainError (lit ''Unexpected end of JSON input'')))
     integer_notation (lit ''test-key'') (lit ''/search/photos'') None =
     Inl \<lparr>message = lit ''Unsplash API error (502)'', statusCode = Some 502,
          response = Some (BodyText [])\<rparr> \<and>
   makeRequest
     (\<lambda>url headers. Inr (error_response 422 (lit ''{\"error\":{\"code\":42}}'')))
     (\<lambda>text. Inr (JObject [(lit ''error'', JObject [(lit ''code'', JNumber 42)])]))
     integer_notation (lit ''test-key'') (lit ''/search/photos'') None =
     Inl \<lparr>message = lit ''[object Object]'', statusCode = Some 422,
          response = Some (BodyText (lit ''{\"error\":{\"code\":42}}''))\<rparr> \<and>
   makeRequest
     (\<lambda>url headers. Inr (error_response 400 (lit ''{\"error\":{\"toString\":1}}'')))
     (\<lambda>text. Inr (JObject [(lit ''error'', JObject [(lit ''toString'', JNumber 1)])]))
     integer_notation (lit ''test-key'') (lit ''/search/photos'') None =
     Inl \<lparr>message = lit ''Network error: Cannot convert object to primitive value'',
          statusCode = None,
          response = Some (ErrorObject (lit ''Cannot convert object to primitive value''))\<rparr>"
proof (intro conjI)
  show "makeRequest
     (\<lambda>url headers. Inr (error_response 401
        (lit ''{\"errors\":[\"Unauthorized\"],\"error\":\"Denied\"}'')))
     (\<lambda>text. Inr (JObject
        [(lit ''errors'', JArray [JString (lit ''Unauthorized'')]),
         (lit ''error'', JString (lit ''Denied''))]))
     integer_notation (lit ''test-key'') (lit ''/search/photos'') None =
     Inl \<lparr>message = lit ''Unauthorized'', statusCode = Some 401,
          response = Some (BodyText
            (lit ''{\"errors\":[\"Unauthorized\"],\"error\":\"Denied\"}''))\<rparr>"
    using makeRequest_error_message
      [where fetch = "\<lambda>url headers. Inr (error_response 401
          (lit ''{\"errors\":[\"Unauthorized\"],\"error\":\"Denied\"}''))"
        and JSON_parse = "\<lambda>text. Inr (JObject
          [(lit ''errors'', JArray [JString (lit ''Unauthorized'')]),
           (lit ''error'', JString (lit ''Denied''))])"
        and Number_toString = integer_notation
        and resp = "error_response 401
          (lit ''{\"errors\":[\"Unauthorized\"],\"error\":\"Denied\"}'')"
        and errorText = "lit ''{\"errors\":[\"Unauthorized\"],\"error\":\"Denied\"}''"
        and errorJson = "JObject
          [(lit ''errors'', JArray [JString (lit ''Unauthorized'')]),
           (lit ''error'', JString (lit ''Denied''))]"
        and string = "lit ''Unauthorized''"
        and accessKey = "lit ''test-key''" and endpoint = "lit ''/search/photos''"
        and params = None]
    by (simp add: client_eval)
  show "makeRequest
     (\<lambda>url headers. Inr (error_response 404 (lit ''{\"error\":\"Not found\"}'')))
     (\<lambda>text. Inr (JObject [(lit ''error'', JString (lit ''Not found''))]))
     integer_notation (lit ''test-key'') (lit ''/search/photos'') None =
     Inl \<lparr>message = lit ''Not found'', statusCode = Some 404,
          response = Some (BodyText (lit ''{\"error\":\"Not found\"}''))\<rparr>"
    using makeRequest_error_message
      [where fetch = "\<lambda>url headers. Inr (error_response 404 (lit ''{\"error\":\"Not found\"}''))"
        and JSON_parse = "\<lambda>text. Inr (JObject [(lit ''error'', JString (lit ''Not found''))])"
        and Number_toString = integer_notation
        and resp = "error_response 404 (lit ''{\"error\":\"Not found\"}'')"
        and errorText = "lit ''{\"error\":\"Not found\"}''"
        and errorJson = "JObject [(lit ''error'', JString (lit ''Not found''))]"
        and string = "lit ''Not found''"
        and accessKey = "lit ''test-key''" and endpoint = "lit ''/search/photos''"
        and params = None]
    by (simp add: client_eval)
  show "makeRequest
     (\<lambda>url headers. Inr (error_response 500 (lit ''{}'')))
     (\<lambda>text. Inr (JObject []))
     integer_notation (lit ''test-key'') (lit ''/search/photos'') None =
     Inl \<lparr>message = lit ''Unsplash API error (500)'', statusCode = Some 500,
          response = Some (BodyText (lit ''{}''))\<rparr>"
    using makeRequest_error_message
      [where fetch = "\<lambda>url headers. Inr (error_response 500 (lit ''{}''))"
        and JSON_parse = "\<lambda>text. Inr (JObject [])"
        and Number_toString = integer_notation
        and resp = "error_response 500 (lit ''{}'')"
        and errorText = "lit ''{}''"
        and errorJson = "JObject []"
        and string = "lit ''Unsplash API error (500)''"
        and accessKey = "lit ''test-key''" and endpoint = "lit ''/search/photos''"
        and params = None]
    by (simp add: client_eval)
  show "makeRequest
     (\<lambda>url headers. Inr (error_response 403 (lit ''Rate Limit Exceeded'')))
     (\<lambda>text. Inl (PlainError (lit ''Unexpected token R in JSON at position 0'')))
     integer_notation (lit ''test-key'') (lit ''/search/photos'') None =
     Inl \<lparr>message = lit ''Rate Limit Exceeded'', statusCode = Some 403,
          response = Some (BodyText (lit ''Rate Limit Exceeded''))\<rparr>"
    using makeRequest_error_message
      [where fetch = "\<lambda>url headers. Inr (error_response 403 (lit ''Rate Limit Exceeded''))"
        and JSON_parse =
          "\<lambda>text. Inl (PlainError (lit ''Unexpected token R in JSON at position 0''))"
        and Number_toString = integer_notation
        and resp = "error_response 403 (lit ''Rate Limit Exceeded'')"
        and errorText = "lit ''Rate Limit Exceeded''"
        and t = "PlainError (lit ''Unexpected token R in JSON at position 0'')"
        and string = "lit ''Rate Limit Exceeded''"
        and accessKey = "lit ''test-key''" and endpoint = "lit ''/search/photos''"
        and params = None]
    by (simp add: client_eval)
  show "makeRequest
     (\<lambda>url headers. Inr (error_response 502 []))
     (\<lambda>text. Inl (PlainError (lit ''Unexpected end of JSON input'')))
     integer_notation (lit ''test-key'') (lit ''/search/photos'') None =
     Inl \<lparr>message = lit ''Unsplash API error (502)'', statusCode = Some 502,
          response = Some (BodyText [])\<rparr>"
    using makeRequest_error_message
      [where fetch = "\<lambda>url headers. Inr (error_response 502 [])"
        and JSON_parse = "\<lambda>text. Inl (PlainError (lit ''Unexpected end of JSON input''))"
        and Number_toString = integer_notation
        and resp = "error_response 502 []"
        and errorText = "[]"
        and t = "PlainError (lit ''Unexpected end of JSON input'')"
        and string = "lit ''Unsplash API error (502)''"
        and accessKey = "lit ''test-key''" and endpoint = "lit ''/search/photos''"
        and params = None]
    by (simp add: client_eval)
  show "makeRequest
     (\<lambda>url headers. Inr (error_response 422 (lit ''{\"error\":{\"code\":42}}'')))
     (\<lambda>text. Inr (JObject [(lit ''error'', JObject [(lit ''code'', JNumber 42)])]))
     integer_notation (lit ''test-key'') (lit ''/search/photos'') None =
     Inl \<lparr>message = lit ''[object Object]'', statusCode = Some 422,
          response = Some (BodyText (lit ''{\"error\":{\"code\":42}}''))\<rparr>"
    using makeRequest_error_message
      [where fetch = "\<lambda>url headers. Inr (error_response 422 (lit ''{\"error\":{\"code\":42}}''))"
        and JSON_parse =
          "\<lambda>text. Inr (JObject [(lit ''error'', JObject [(lit ''code'', JNumber 42)])])"
        and Number_toString = integer_notation
        and resp = "error_response 422 (lit ''{\"error\":{\"code\":42}}'')"
        and errorText = "lit ''{\"error\":{\"code\":42}}''"
        and errorJson = "JObject [(lit ''error'', JObject [(lit ''code'', JNumber 42)])]"
        and qs = "[(lit ''code'', JNumber 42)]"
        and string = "lit ''[object Object]''"
        and accessKey = "lit ''test-key''" and endpoint = "lit ''/search/photos''"
        and params = None]
    by (simp add: client_eval)
  show "makeRequest
     (\<lambda>url headers. Inr (error_response 400 (lit ''{\"error\":{\"toString\":1}}'')))
     (\<lambda>text. Inr (JObject [(lit ''error'', JObject [(lit ''toString'', JNumber 1)])]))
     integer_notation (lit ''test-key'') (lit ''/search/photos'') None =
     Inl \<lparr>message = lit ''Network error: Cannot convert object to primitive value'',
          statusCode = None,
          response = Some (ErrorObject (lit ''Cannot convert object to primitive value''))\<rparr>"
    using makeRequest_error_message
      [where fetch =
          "\<lambda>url headers. Inr (error_response 400 (lit ''{\"error\":{\"toString\":1}}''))"
        and JSON_parse =
          "\<lambda>text. Inr (JObject [(lit ''error'', JObject [(lit ''toString'', JNumber 1)])])"
        and Number_toString = integer_notation
        and resp = "error_response 400 (lit ''{\"error\":{\"toString\":1}}'')"
        and errorText = "lit ''{\"error\":{\"toString\":1}}''"
        and errorJson = "JObject [(lit ''error'', JObject [(lit ''toString'', JNumber 1)])]"
        and thrown_value = conversion_error
        and accessKey = "lit ''test-key''" and endpoint = "lit ''/search/photos''"
        and params = None]
    by (simp add: client_eval)
qed

text \<open>
  Claim C2 as stated fails for a body that does not parse as JSON: the message is not
  the generic one but the body text. The plain text \<open>Rate Limit Exceeded\<close> under
  status 403 gives that text as the message. The precedence also passes over a field
  that is not truthy: for the body \<open>{"errors":[""],"error":"Bad request"}\<close> the
  message is \<open>Bad request\<close>, not the first element of \<^verbatim>\<open>errors\<close>.
\<close>

theorem makeRequest_unparsed_body_counterexample:
  "makeRequest
     (\<lambda>url headers. Inr (error_response 403 (lit ''Rate Limit Exceeded'')))
     (\<lambda>text. Inl (PlainError (lit ''Unexpected token R in JSON at position 0'')))
     integer_notation (lit ''test-key'') (lit ''/search/photos'') None =
     Inl \<lparr>message = lit ''Rate Limit Exceeded'', statusCode = Some 403,
          response = Some (BodyText (lit ''Rate Limit Exceeded''))\<rparr> \<and>
   JString (lit ''Rate Limit Exceeded'') \<noteq> genericMessage 403 \<and>
   genericMessage 403 = JString (lit ''Unsplash API error (403)'') \<and>
   makeRequest
     (\<lambda>url headers. Inr (error_response 400
        (lit ''{\"errors\":[\"\"],\"error\":\"Bad request\"}'')))
     (\<lambda>text. Inr (JObject
        [(lit ''errors'', JArray [JString []]), (lit ''error'', JString (lit ''Bad request''))]))
     integer_notation (lit ''test-key'') (lit ''/search/photos'') None =
     Inl \<lparr>message = lit ''Bad request'', statusCode = Some 400,
          response = Some (BodyText (lit ''{\"errors\":[\"\"],\"error\":\"Bad request\"}''))\<rparr>"
  by (simp add: client_eval)

text \<open>
  Claim C6, amended. A response has a status outside 200 to 299 exactly when its
  \<^verbatim>\<open>ok\<close> flag, which the client tests, is false. For every such response whose body
  text is read and whose message converts to a string, \<open>makeRequest\<close> throws an
  error whose status code is the status of the response and which carries the body
  text; when the body parses to \<open>{"errors":["Unauthorized"]}\<close> the message is
  \<open>Unauthorized\<close>. When reading the body throws, or the conversion of the message
  does, the outer \<^verbatim>\<open>catch\<close> takes what is thrown: the error has no status code, and
  its message is \<open>Network error: \<close> with the message of the \<^verbatim>\<open>Error\<close> thrown, or
  \<open>Unknown error occurred\<close> when that is no \<^verbatim>\<open>Error\<close>.
\<close>

theorem makeRequest_status_error:
  assumes "fetch (requestUrl endpoint params) (requestHeaders accessKey) = Inr resp"
    and "ok resp \<longleftrightarrow> 200 \<le> status resp \<and> status resp \<le> 299"
    and "status resp < 200 \<or> 299 < status resp"
  shows "(text_result resp = Inr errorText \<and>
            ToString Number_toString (errorMessage JSON_parse (status resp) errorText) =
              Inr string \<longrightarrow>
          makeRequest fetch JSON_parse Number_toString accessKey endpoint params =
            Inl \<lparr>message = string,
                 statusCode = Some (status resp),
                 response = Some (BodyText errorText)\<rparr>) \<and>
         (text_result resp = Inr errorText \<and>
            JSON_parse errorText =
              Inr (JObject [(lit ''errors'', JArray [JString (lit ''Unauthorized'')])]) \<longrightarrow>
          makeRequest fetch JSON_parse Number_toString accessKey endpoint params =
            Inl \<lparr>message = lit ''Unauthorized'',
                 statusCode = Some (status resp),
                 response = Some (BodyText errorText)\<rparr>) \<and>
         (text_result resp = Inr errorText \<and>
            ToString Number_toString (errorMessage JSON_parse (status resp) errorText) =
              Inl thrown_value \<longrightarrow>
          makeRequest fetch JSON_parse Number_toString accessKey endpoint params =
            Inl \<lparr>message = lit ''Network error: Cannot convert object to primitive value'',
                 statusCode = None,
                 response =
                   Some (ErrorObject (lit ''Cannot convert object to primitive value''))\<rparr>) \<and>
         (text_result resp = Inl (PlainError error_message) \<longrightarrow>
          makeRequest fetch JSON_parse Number_toString accessKey endpoint params =
            Inl \<lparr>message = lit ''Network error: '' @ error_message,
                 statusCode = None,
                 response = Some (ErrorObject error_message)\<rparr>) \<and>
         (text_result resp = Inl (NonError v) \<longrightarrow>
          makeRequest fetch JSON_parse Number_toString accessKey endpoint params =
            Inl \<lparr>message = lit ''Unknown error occurred'',
                 statusCode = None,
                 response = None\<rparr>)"
proof -
  from assms(2,3) have not_ok: "\<not> ok resp"
    by auto
  have converted: "makeRequest fetch JSON_parse Number_toString accessKey endpoint params =
      Inl \<lparr>message = string,
           statusCode = Some (status resp),
           response = Some (BodyText errorText)\<rparr>"
    if "text_result resp = Inr errorText"
      and "ToString Number_toString (errorMessage JSON_parse (status resp) errorText) =
        Inr string"
    for string
    using assms(1) not_ok that by (rule makeRequest_converted)
  have unauthorized: "makeRequest fetch JSON_parse Number_toString accessKey endpoint params =
      Inl \<lparr>message = lit ''Unauthorized'',
           statusCode = Some (status resp),
           response = Some (BodyText errorText)\<rparr>"
    if body: "text_result resp = Inr errorText"
      and parsed: "JSON_parse errorText =
        Inr (JObject [(lit ''errors'', JArray [JString (lit ''Unauthorized'')])])"
  proof -
    have "errors_first (JObject [(lit ''errors'', JArray [JString (lit ''Unauthorized'')])]) =
        JString (lit ''Unauthorized'')"
      by (rule errors_first_array) simp
    moreover have "js_truthy (JString (lit ''Unauthorized''))"
      by (simp add: js_truthy_def lit_def)
    ultimately have "errorMessage JSON_parse (status resp) errorText =
        JString (lit ''Unauthorized'')"
      using parsed by (simp add: errorMessage_parsed nullish_def)
    then have "ToString Number_toString (errorMessage JSON_parse (status resp) errorText) =
        Inr (lit ''Unauthorized'')"
      by simp
    with body show ?thesis
      by (rule converted)
  qed
  have not_converted: "makeRequest fetch JSON_parse Number_toString accessKey endpoint params =
      Inl \<lparr>message = lit ''Network error: Cannot convert object to primitive value'',
           statusCode = None,
           response = Some (ErrorObject (lit ''Cannot convert object to primitive value''))\<rparr>"
    if "text_result resp = Inr errorText"
      and "ToString Number_toString (errorMessage JSON_parse (status resp) errorText) =
        Inl thrown_value"
    using assms(1) not_ok that by (rule makeRequest_not_converted)
  have unread: "makeRequest fetch JSON_parse Number_toString accessKey endpoint params =
      Inl \<lparr>message = lit ''Network error: '' @ error_message,
           statusCode = None,
           response = Some (ErrorObject error_message)\<rparr>"
    if "text_result resp = Inl (PlainError error_message)"
    using assms(1) not_ok that
      makeRequest_body_rejected
      [where fetch = fetch and resp = resp and thrown_value = "PlainError error_message"
        and JSON_parse = JSON_parse and Number_toString = Number_toString
        and endpoint = endpoint and params = params and accessKey = accessKey]
    by simp
  have unknown: "makeRequest fetch JSON_parse Number_toString accessKey endpoint params =
      Inl \<lparr>message = lit ''Unknown error occurred'',
           statusCode = None,
           response = None\<rparr>"
    if "text_result resp = Inl (NonError v)"
    using assms(1) not_ok that
      makeRequest_body_rejected
      [where fetch = fetch and resp = resp and thrown_value = "NonError v"
        and JSON_parse = JSON_parse and Number_toString = Number_toString
        and endpoint = endpoint and params = params and accessKey = accessKey]
    by simp
  from converted unauthorized not_converted unread unknown show ?thesis
    by blast
qed

text \<open>
  The mock of the repository's client test, with status 401 and the errors array, and a
  response with status 500 whose body cannot be read.
\<close>

theorem makeRequest_status_error_witness:
  "\<not> ok (error_response 401 (lit ''{\"errors\":[\"Unauthorized\"]}'')) \<and>
   status (error_response 401 (lit ''{\"errors\":[\"Unauthorized\"]}'')) = 401 \<and>
   makeRequest
     (\<lambda>url headers. Inr (error_response 401 (lit ''{\"errors\":[\"Unauthorized\"]}'')))
     (\<lambda>text. Inr (JObject [(lit ''errors'', JArray [JString (lit ''Unauthorized'')])]))
     integer_notation (lit ''test-key'') (lit ''/search/photos'') None =
     Inl \<lparr>message = lit ''Unauthorized'', statusCode = Some 401,
          response = Some (BodyText (lit ''{\"errors\":[\"Unauthorized\"]}''))\<rparr> \<and>
   makeRequest
     (\<lambda>url headers. Inr \<lparr>ok = False, status = 500,
        text_result = Inl (PlainError (lit ''terminated'')),
        json_result = Inl (PlainError (lit ''terminated''))\<rparr>)
     (\<lambda>text. Inr JNull) integer_notation (lit ''test-key'') (lit ''/search/photos'') None =
     Inl \<lparr>message = lit ''Network error: terminated'', statusCode = None,
          response = Some (ErrorObject (lit ''terminated''))\<rparr>"
  using makeRequest_status_error
    [where fetch = "\<lambda>url headers. Inr (error_response 401 (lit ''{\"errors\":[\"Unauthorized\"]}''))"
      and JSON_parse =
        "\<lambda>text. Inr (JObject [(lit ''errors'', JArray [JString (lit ''Unauthorized'')])])"
      and Number_toString = integer_notation
      and resp = "error_response 401 (lit ''{\"errors\":[\"Unauthorized\"]}'')"
      and errorText = "lit ''{\"errors\":[\"Unauthorized\"]}''"
      and string = "lit ''Unauthorized''"
      and accessKey = "lit ''test-key''" and endpoint = "lit ''/search/photos''"
      and params = None]
    makeRequest_status_error
    [where fetch = "\<lambda>url headers. Inr \<lparr>ok = False, status = 500,
        text_result = Inl (PlainError (lit ''terminated'')),
        json_result = Inl (PlainError (lit ''terminated''))\<rparr>"
      and JSON_parse = "\<lambda>text. Inr JNull"
      and Number_toString = integer_notation
      and resp = "\<lparr>ok = False, status = 500,
        text_result = Inl (PlainError (lit ''terminated'')),
        json_result = Inl (PlainError (lit ''terminated''))\<rparr>"
      and error_message = "lit ''terminated''"
      and accessKey = "lit ''test-key''" and endpoint = "lit ''/search/photos''"
      and params = None]
  by (simp add: client_eval)

text \<open>
  Claim C6 as stated fails for a response whose body cannot be read: under status 500,
  with \<^verbatim>\<open>response.text()\<close> rejecting with the \<^verbatim>\<open>TypeError\<close> of a connection that
  ended, the error thrown has no status code. It also fails when the message does not
  convert to a string: for the body \<open>{"error":{"toString":1}}\<close> under status 401 the
  error thrown has no status code either.
\<close>

theorem makeRequest_status_lost_counterexample:
  "status \<lparr>ok = False, status = 500,
      text_result = Inl (PlainError (lit ''terminated'')),
      json_result = Inl (PlainError (lit ''terminated''))\<rparr> = 500 \<and>
   makeRequest
     (\<lambda>url headers. Inr \<lparr>ok = False, status = 500,
        text_result = Inl (PlainError (lit ''terminated'')),
        json_result = Inl (PlainError (lit ''terminated''))\<rparr>)
     (\<lambda>text. Inr JNull) integer_notation (lit ''test-key'') (lit ''/search/photos'') None =
     Inl \<lparr>message = lit ''Network error: terminated'', statusCode = None,
          response = Some (ErrorObject (lit ''terminated''))\<rparr> \<and>
   status (error_response 401 (lit ''{\"error\":{\"toString\":1}}'')) = 401 \<and>
   makeRequest
     (\<lambda>url headers. Inr (error_response 401 (lit ''{\"error\":{\"toString\":1}}'')))
     (\<lambda>text. Inr (JObject [(lit ''error'', JObject [(lit ''toString'', JNumber 1)])]))
     integer_notation (lit ''test-key'') (lit ''/search/photos'') None =
     Inl \<lparr>message = lit ''Network error: Cannot convert object to primitive value'',
          statusCode = None,
          response = Some (ErrorObject (lit ''Cannot convert object to primitive value''))\<rparr>"
  by (simp add: client_eval)

text \<open>
  Claim C5. A transport failure is a rejection of \<^verbatim>\<open>fetch\<close>, which rejects with an
  instance of \<^verbatim>\<open>Error\<close> (a \<^verbatim>\<open>TypeError\<close>, or a \<^verbatim>\<open>DOMException\<close> on abort). For
  every such rejection \<open>makeRequest\<close> throws an error without a status code, whose
  message is \<open>Network error: \<close> followed by the message of the failure, and which
  carries the failure.
\<close>

theorem makeRequest_transport_failure:
  assumes "fetch (requestUrl endpoint params) (requestHeaders accessKey) =
           Inl (PlainError error_message)"
  shows "makeRequest fetch JSON_parse Number_toString accessKey endpoint params =
           Inl \<lparr>message = lit ''Network error: '' @ error_message,
                statusCode = None,
                response = Some (ErrorObject error_message)\<rparr>"
  using assms
    makeRequest_rejected
    [where fetch = fetch and thrown_value = "PlainError error_message"
      and JSON_parse = JSON_parse and Number_toString = Number_toString
      and endpoint = endpoint and params = params and accessKey = accessKey]
  by simp

text \<open>The mock of the repository's client test: \<^verbatim>\<open>fetch\<close> throws \<open>Network failure\<close>.\<close>

theorem makeRequest_transport_failure_witness:
  "makeRequest (\<lambda>url headers. Inl (PlainError (lit ''Network failure'')))
     (\<lambda>text. Inr JNull) integer_notation (lit ''test-key'') (lit ''/search/photos'') None =
     Inl \<lparr>message = lit ''Network error: Network failure'',
          statusCode = None,
          response = Some (ErrorObject (lit ''Network failure''))\<rparr>"
  using makeRequest_transport_failure
    [where fetch = "\<lambda>url headers. Inl (PlainError (lit ''Network failure''))"
      and error_message = "lit ''Network failure''"
      and JSON_parse = "\<lambda>text. Inr JNull"
      and Number_toString = integer_notation
      and accessKey = "lit ''test-key''" and endpoint = "lit ''/search/photos''"
      and params = None]
  by (simp add: lit_def)

text \<open>
  Claim C9. When the response is \<^verbatim>\<open>ok\<close> and \<^verbatim>\<open>response.json()\<close> throws an
  \<^verbatim>\<open>Error\<close> (the \<^verbatim>\<open>SyntaxError\<close> of a body that is not JSON), \<open>makeRequest\<close> throws
  what it throws for a transport failure with that message: no status code and the
  message prefixed \<open>Network error: \<close>. When what is thrown inside the \<^verbatim>\<open>try\<close> block
  (by \<^verbatim>\<open>fetch\<close>, by reading the body text, or by \<^verbatim>\<open>response.json()\<close>) is not an
  \<^verbatim>\<open>Error\<close>, the message is \<open>Unknown error occurred\<close>, which has no such prefix,
  and there is no status code.
\<close>

theorem makeRequest_caught_values:
  "(fetch (requestUrl endpoint params) (requestHeaders accessKey) = Inr resp \<and> ok resp \<and>
      json_result resp = Inl (PlainError error_message) \<longrightarrow>
    makeRequest fetch JSON_parse Number_toString accessKey endpoint params =
      Inl \<lparr>message = lit ''Network error: '' @ error_message,
           statusCode = None,
           response = Some (ErrorObject error_message)\<rparr>) \<and>
   (fetch' (requestUrl endpoint params) (requestHeaders accessKey) =
      Inl (PlainError error_message) \<longrightarrow>
    makeRequest fetch' JSON_parse Number_toString accessKey endpoint params =
      Inl \<lparr>message = lit ''Network error: '' @ error_message,
           statusCode = None,
           response = Some (ErrorObject error_message)\<rparr>) \<and>
   (fetch (requestUrl endpoint params) (requestHeaders accessKey) = Inl (NonError v) \<or>
    (fetch (requestUrl endpoint params) (requestHeaders accessKey) = Inr resp \<and>
       \<not> ok resp \<and> text_result resp = Inl (NonError v)) \<or>
    (fetch (requestUrl endpoint params) (requestHeaders accessKey) = Inr resp \<and>
       ok resp \<and> json_result resp = Inl (NonError v)) \<longrightarrow>
    makeRequest fetch JSON_parse Number_toString accessKey endpoint params =
      Inl \<lparr>message = lit ''Unknown error occurred'',
           statusCode = None,
           response = None\<rparr>) \<and>
   \<not> prefix (lit ''Network error: '') (lit ''Unknown error occurred'')"
proof (intro conjI impI)
  assume "fetch (requestUrl endpoint params) (requestHeaders accessKey) = Inr resp \<and>
    ok resp \<and> json_result resp = Inl (PlainError error_message)"
  then show "makeRequest fetch JSON_parse Number_toString accessKey endpoint params =
      Inl \<lparr>message = lit ''Network error: '' @ error_message,
           statusCode = None,
           response = Some (ErrorObject error_message)\<rparr>"
    using makeRequest_body_rejected
      [where fetch = fetch and resp = resp and thrown_value = "PlainError error_message"
        and JSON_parse = JSON_parse and Number_toString = Number_toString
        and endpoint = endpoint and params = params and accessKey = accessKey]
    by simp
next
  assume "fetch' (requestUrl endpoint params) (requestHeaders accessKey) =
    Inl (PlainError error_message)"
  then show "makeRequest fetch' JSON_parse Number_toString accessKey endpoint params =
      Inl \<lparr>message = lit ''Network error: '' @ error_message,
           statusCode = None,
           response = Some (ErrorObject error_message)\<rparr>"
    using makeRequest_rejected
      [where fetch = fetch' and thrown_value = "PlainError error_message"
        and JSON_parse = JSON_parse and Number_toString = Number_toString
        and endpoint = endpoint and params = params and accessKey = accessKey]
    by simp
next
  assume "fetch (requestUrl endpoint params) (requestHeaders accessKey) = Inl (NonError v) \<or>
    (fetch (requestUrl endpoint params) (requestHeaders accessKey) = Inr resp \<and>
       \<not> ok resp \<and> text_result resp = Inl (NonError v)) \<or>
    (fetch (requestUrl endpoint params) (requestHeaders accessKey) = Inr resp \<and>
       ok resp \<and> json_result resp = Inl (NonError v))"
  then show "makeRequest fetch JSON_parse Number_toString accessKey endpoint params =
      Inl \<lparr>message = lit ''Unknown error occurred'',
           statusCode = None,
           response = None\<rparr>"
    using makeRequest_rejected
      [where fetch = fetch and thrown_value = "NonError v"
        and JSON_parse = JSON_parse and Number_toString = Number_toString
        and endpoint = endpoint and params = params and accessKey = accessKey]
      makeRequest_body_rejected
      [where fetch = fetch and resp = resp and thrown_value = "NonError v"
        and JSON_parse = JSON_parse and Number_toString = Number_toString
        and endpoint = endpoint and params = params and accessKey = accessKey]
    by auto
next
  show "\<not> prefix (lit ''Network error: '') (lit ''Unknown error occurred'')"
    by (simp add: lit_def)
qed

text \<open>
  A success response whose \<^verbatim>\<open>json()\<close> throws a \<^verbatim>\<open>SyntaxError\<close>, a \<^verbatim>\<open>fetch\<close> that
  rejects with the same message, and a \<^verbatim>\<open>fetch\<close> that throws a string.
\<close>

theorem makeRequest_caught_values_witness:
  "makeRequest
     (\<lambda>url headers. Inr \<lparr>ok = True, status = 200, text_result = Inr (lit ''<html>''),
        json_result = Inl (PlainError (lit ''Unexpected token < in JSON at position 0''))\<rparr>)
     (\<lambda>text. Inr JNull) integer_notation (lit ''test-key'') (lit ''/search/photos'') None =
     Inl \<lparr>message = lit ''Network error: Unexpected token < in JSON at position 0'',
          statusCode = None,
          response = Some (ErrorObject (lit ''Unexpected token < in JSON at position 0''))\<rparr> \<and>
   makeRequest
     (\<lambda>url headers. Inl (PlainError (lit ''Unexpected token < in JSON at position 0'')))
     (\<lambda>text. Inr JNull) integer_notation (lit ''test-key'') (lit ''/search/photos'') None =
     Inl \<lparr>message = lit ''Network error: Unexpected token < in JSON at position 0'',
          statusCode = None,
          response = Some (ErrorObject (lit ''Unexpected token < in JSON at position 0''))\<rparr> \<and>
   makeRequest (\<lambda>url headers. Inl (NonError (JString (lit ''offline''))))
     (\<lambda>text. Inr JNull) integer_notation (lit ''test-key'') (lit ''/search/photos'') None =
     Inl \<lparr>message = lit ''Unknown error occurred'',
          statusCode = None,
          response = None\<rparr>"
  using makeRequest_caught_values
    [where fetch = "\<lambda>url headers. Inr \<lparr>ok = True, status = 200, text_result = Inr (lit ''<html>''),
        json_result = Inl (PlainError (lit ''Unexpected token < in JSON at position 0''))\<rparr>"
      and resp = "\<lparr>ok = True, status = 200, text_result = Inr (lit ''<html>''),
        json_result = Inl (PlainError (lit ''Unexpected token < in JSON at position 0''))\<rparr>"
      and fetch' =
        "\<lambda>url headers. Inl (PlainError (lit ''Unexpected token < in JSON at position 0''))"
      and error_message = "lit ''Unexpected token < in JSON at position 0''"
      and JSON_parse = "\<lambda>text. Inr JNull"
      and Number_toString = integer_notation
      and accessKey = "lit ''test-key''" and endpoint = "lit ''/search/photos''"
      and params = None]
    makeRequest_caught_values
    [where fetch = "\<lambda>url headers. Inl (NonError (JString (lit ''offline'')))"
      and v = "JString (lit ''offline'')"
      and JSON_parse = "\<lambda>text. Inr JNull"
      and Number_toString = integer_notation
      and accessKey = "lit ''test-key''" and endpoint = "lit ''/search/photos''"
      and params = None]
  by (simp add: lit_def)

subsection \<open>trackDownload\<close>

text \<open>
  Claim C8, amended. For every URL and every outcome of \<^verbatim>\<open>fetch\<close>, \<open>trackDownload\<close>
  returns normally. A rejection of \<^verbatim>\<open>fetch\<close> is written to \<^verbatim>\<open>console.error\<close> and
  swallowed. A response is not looked at: whatever its status, nothing is written.
\<close>

theorem trackDownload_swallows:
  "fst (trackDownload fetch accessKey downloadLocation) = Inr () \<and>
   (fetch downloadLocation [(lit ''Authorization'', lit ''Client-ID '' @ accessKey)] =
      Inl error \<longrightarrow>
    snd (trackDownload fetch accessKey downloadLocation) =
      [(lit ''Failed to track download:'', error)]) \<and>
   (fetch downloadLocation [(lit ''Authorization'', lit ''Client-ID '' @ accessKey)] =
      Inr resp \<longrightarrow>
    snd (trackDownload fetch accessKey downloadLocation) = [])"
  by (auto simp: trackDownload_def split: sum.splits)

text \<open>
  The two mocks of the repository's client tests: \<^verbatim>\<open>fetch\<close> throws
  \<open>Network error\<close>, and \<^verbatim>\<open>fetch\<close> resolves with status 200.
\<close>

theorem trackDownload_swallows_witness:
  "trackDownload (\<lambda>url headers. Inl (PlainError (lit ''Network error'')))
     (lit ''test-key'') (lit ''https://api.unsplash.com/photos/test/download'') =
     (Inr (), [(lit ''Failed to track download:'', PlainError (lit ''Network error''))]) \<and>
   trackDownload
     (\<lambda>url headers. Inr \<lparr>ok = True, status = 200, text_result = Inr [],
        json_result = Inr JUndefined\<rparr>)
     (lit ''test-key'') (lit ''https://api.unsplash.com/photos/test/download'') =
     (Inr (), [])"
  using trackDownload_swallows
    [where fetch = "\<lambda>url headers. Inl (PlainError (lit ''Network error''))"
      and error = "PlainError (lit ''Network error'')"
      and accessKey = "lit ''test-key''"
      and downloadLocation = "lit ''https://api.unsplash.com/photos/test/download''"]
    trackDownload_swallows
    [where fetch = "\<lambda>url headers. Inr \<lparr>ok = True, status = 200, text_result = Inr [],
        json_result = Inr JUndefined\<rparr>"
      and resp = "\<lparr>ok = True, status = 200, text_result = Inr [],
        json_result = Inr JUndefined\<rparr>"
      and accessKey = "lit ''test-key''"
      and downloadLocation = "lit ''https://api.unsplash.com/photos/test/download''"]
  by (simp add: prod_eq_iff)

text \<open>
  Claim C8 as stated fails for a failure of status: a response with status 500 is
  swallowed without a line written to the log.
\<close>

theorem trackDownload_status_failure_counterexample:
  "\<not> ok (error_response 500 []) \<and>
   status (error_response 500 []) = 500 \<and>
   trackDownload (\<lambda>url headers. Inr (error_response 500 []))
     (lit ''test-key'') (lit ''https://api.unsplash.com/photos/test/download'') =
     (Inr (), [])"
  by (simp add: trackDownload_def error_response_def)

end
